theory Spec2Isabelle
  imports Main "HOL-Library.Sublist" "HOL-Library.Char_ord" "HOL-Library.List_Lexorder"
begin

section \<open>Go strings\<close>

text \<open>
  A Go string is a sequence of bytes; \<^typ>\<open>string\<close> is a list of 8-bit characters, so
  \<open>len(s)\<close> is \<^term>\<open>length s\<close> and \<open>s[:n]\<close> is \<^term>\<open>take n s\<close>.
  \<open>sort.Strings\<close> orders strings bytewise, which is the lexicographic order of
  \<open>HOL-Library.List_Lexorder\<close> over the byte order of \<open>HOL-Library.Char_ord\<close>.
  \<open>strings.HasPrefix(s, p)\<close> is \<^term>\<open>prefix p s\<close>.
\<close>

definition sort_Strings :: "string list \<Rightarrow> string list" where
  "sort_Strings xs = sort xs"

text \<open>
  \<open>unicode.IsSpace\<close>, as \<open>strings.TrimSpace\<close> and \<open>strings.Fields\<close> see it in a byte
  string: the UTF-8 encodings of the white-space code points U+0009..U+000D, U+0020,
  U+0085, U+00A0, U+1680, U+2000..U+200A, U+2028, U+2029, U+202F, U+205F and U+3000.
\<close>

definition unicode_spaces :: "string list" where
  "unicode_spaces =
     [[CHR 0x09], [CHR 0x0A], [CHR 0x0B], [CHR 0x0C], [CHR 0x0D], [CHR 0x20],
      [CHR 0xC2, CHR 0x85], [CHR 0xC2, CHR 0xA0],
      [CHR 0xE1, CHR 0x9A, CHR 0x80],
      [CHR 0xE2, CHR 0x80, CHR 0x80], [CHR 0xE2, CHR 0x80, CHR 0x81],
      [CHR 0xE2, CHR 0x80, CHR 0x82], [CHR 0xE2, CHR 0x80, CHR 0x83],
      [CHR 0xE2, CHR 0x80, CHR 0x84], [CHR 0xE2, CHR 0x80, CHR 0x85],
      [CHR 0xE2, CHR 0x80, CHR 0x86], [CHR 0xE2, CHR 0x80, CHR 0x87],
      [CHR 0xE2, CHR 0x80, CHR 0x88], [CHR 0xE2, CHR 0x80, CHR 0x89],
      [CHR 0xE2, CHR 0x80, CHR 0x8A],
      [CHR 0xE2, CHR 0x80, CHR 0xA8], [CHR 0xE2, CHR 0x80, CHR 0xA9],
      [CHR 0xE2, CHR 0x80, CHR 0xAF], [CHR 0xE2, CHR 0x81, CHR 0x9F],
      [CHR 0xE3, CHR 0x80, CHR 0x80]]"

text \<open>The number of bytes of the white-space rune a string starts with, 0 when it starts
  with none. The encodings are prefix-free, so at most one of them matches.\<close>

definition space_width :: "string list \<Rightarrow> string \<Rightarrow> nat" where
  "space_width spaces s =
     (case find (\<lambda>w. prefix w s) spaces of None \<Rightarrow> 0 | Some w \<Rightarrow> length w)"

text \<open>\<open>strings.TrimLeftFunc(s, unicode.IsSpace)\<close>: drop white-space runes from the front.
  The loop runs at most once per byte; the bound is the fuel of the recursion.\<close>

fun trim_front :: "string list \<Rightarrow> nat \<Rightarrow> string \<Rightarrow> string" where
  "trim_front spaces 0 s = s"
| "trim_front spaces (Suc n) s =
     (if space_width spaces s = 0 then s
      else trim_front spaces n (drop (space_width spaces s) s))"

definition TrimLeftSpace :: "string \<Rightarrow> string" where
  "TrimLeftSpace s = trim_front unicode_spaces (length s) s"

text \<open>The trailing side decodes the last rune: the string ends with one of the encodings.\<close>

definition TrimRightSpace :: "string \<Rightarrow> string" where
  "TrimRightSpace s = rev (trim_front (map rev unicode_spaces) (length s) (rev s))"

definition TrimSpace :: "string \<Rightarrow> string" where
  "TrimSpace s = TrimRightSpace (TrimLeftSpace s)"

text \<open>\<open>strings.Split(s, ",")\<close> with a one-byte separator: the pieces between the
  separators, \<open>n + 1\<close> pieces for \<open>n\<close> separators, so \<open>Split("", ",")\<close> is \<open>[""]\<close>.\<close>

fun Split :: "string \<Rightarrow> char \<Rightarrow> string list" where
  "Split [] sep = [[]]"
| "Split (c # cs) sep =
     (if c = sep then [] # Split cs sep
      else (case Split cs sep of
              [] \<Rightarrow> [[c]]
            | p # ps \<Rightarrow> (c # p) # ps))"

text \<open>\<open>strings.Fields(s)\<close>: the maximal runs of bytes between white-space runes, none of
  them empty. \<open>cur\<close> is the field being read (reversed), the fuel is the length.\<close>

fun fields_from :: "nat \<Rightarrow> string \<Rightarrow> string \<Rightarrow> string list" where
  "fields_from 0 cur s = (if cur = [] then [] else [rev cur])"
| "fields_from (Suc n) cur s =
     (case s of
        [] \<Rightarrow> (if cur = [] then [] else [rev cur])
      | c # cs \<Rightarrow>
          (if space_width unicode_spaces s = 0 then fields_from n (c # cur) cs
           else (if cur = [] then [] else [rev cur])
                  @ fields_from n [] (drop (space_width unicode_spaces s) s)))"

definition Fields :: "string \<Rightarrow> string list" where
  "Fields s = fields_from (Suc (length s)) [] s"

text \<open>\<open>strings.ReplaceAll(s, old, new)\<close> for one-byte \<open>old\<close> and \<open>new\<close>.\<close>

definition ReplaceAll :: "string \<Rightarrow> char \<Rightarrow> char \<Rightarrow> string" where
  "ReplaceAll s old new = map (\<lambda>c. if c = old then new else c) s"

text \<open>The verb \<open>%d\<close> of \<open>fmt\<close>: decimal digits, with a minus sign below zero.\<close>

definition digit_char :: "nat \<Rightarrow> char" where
  "digit_char d = ''0123456789'' ! (d mod 10)"

fun nat_dec :: "nat \<Rightarrow> string" where
  "nat_dec n = (if n < 10 then [digit_char n] else nat_dec (n div 10) @ [digit_char n])"

declare nat_dec.simps [simp del]

definition fmt_d :: "int \<Rightarrow> string" where
  "fmt_d i = (if i < 0 then CHR ''-'' # nat_dec (nat (- i)) else nat_dec (nat i))"

text \<open>The verb \<open>%v\<close> on a slice of strings: the elements between brackets, separated by
  one space.\<close>

fun join_sp :: "string list \<Rightarrow> string" where
  "join_sp [] = []"
| "join_sp [x] = x"
| "join_sp (x # y # ys) = x @ '' '' @ join_sp (y # ys)"

definition fmt_v :: "string list \<Rightarrow> string" where
  "fmt_v xs = ''['' @ join_sp xs @ '']''"

section \<open>Configuration, output and the outside world\<close>

text \<open>
  \<open>AppConfig\<close> of \<open>internal/pkg\<close> (and of \<open>saws.go\<close>). A Go map is kept as the list of
  its bindings: the keys are the first components, \<open>m[k]\<close> is \<^term>\<open>map_of m k\<close>.
\<close>

record AppConfig =
  Accounts :: "(string \<times> string) list"
  CommonRegions :: "string list"
  Roles :: "(string \<times> string) list"

definition BaseProfileForAssume :: string where
  "BaseProfileForAssume = ''default''"

definition FallbackRegion :: string where
  "FallbackRegion = ''eu-west-1''"

definition SessionDurationSeconds :: int where
  "SessionDurationSeconds = 3600"

text \<open>
  What a run writes: a line on standard output, a line on standard error, a line given to
  the logger, the usage text, and a nil dereference.
\<close>

datatype event = Stdout string | Stderr string | Log string | UsageText | Panic

definition printed :: "event list \<Rightarrow> string list" where
  "printed evs = concat (map (\<lambda>e. case e of Stdout l \<Rightarrow> [l] | _ \<Rightarrow> []) evs)"

definition logged :: "event list \<Rightarrow> string list" where
  "logged evs = concat (map (\<lambda>e. case e of Log l \<Rightarrow> [l] | _ \<Rightarrow> []) evs)"

text \<open>
  \<open>log.Printf\<close> hands a line to the logger, and \<open>pkg.LogVerbosef\<close> calls it only when
  \<open>VerboseMode\<close> is set. Whether a line handed to the logger reaches the terminal depends
  on the log output: \<open>main\<close> of \<open>cmd/saws\<close> sets it to \<open>io.Discard\<close> unless \<open>-v\<close> is
  given, \<open>saws.go\<close> leaves it on standard error. \<open>shown\<close> is what reaches the terminal.
\<close>

definition log_Printf :: "string \<Rightarrow> event list" where
  "log_Printf msg = [Log msg]"

definition LogVerbosef :: "bool \<Rightarrow> string \<Rightarrow> event list" where
  "LogVerbosef VerboseMode msg = (if VerboseMode then log_Printf msg else [])"

definition shown :: "bool \<Rightarrow> event list \<Rightarrow> event list" where
  "shown log_output_open evs =
     filter (\<lambda>e. case e of Log l \<Rightarrow> log_output_open | _ \<Rightarrow> True) evs"

text \<open>The security token service: the request, the response, and the client as a function
  from the region of the client's configuration and the request to an error text or a
  response. Nil pointers are \<^term>\<open>None\<close>.\<close>

record AssumeRoleInput =
  RoleArn :: string
  RoleSessionName :: string
  DurationSeconds :: int

record sts_Credentials =
  AccessKeyId :: "string option"
  SecretAccessKey :: "string option"
  SessionToken :: "string option"
  Expiration :: "string option"

record AssumeRoleOutput =
  Credentials :: "sts_Credentials option"

type_synonym sts_client = "string \<Rightarrow> AssumeRoleInput \<Rightarrow> string + AssumeRoleOutput"

text \<open>
  \<open>exec.Cmd\<close>: the program and its arguments, the environment, and the buffer each of the
  two output streams is attached to. \<open>cmd.Run()\<close> is a function of the outside world: it
  gives the error (an \<open>*exec.ExitError\<close> with its exit code, or another error), the chunks
  the process wrote, each on one of its two streams, in the order of writing, and the
  elapsed time already rounded and rendered by \<open>%s\<close>.
\<close>

datatype buffer = outb | errb

datatype stream = fd_stdout | fd_stderr

record Cmd =
  Path :: string
  Args :: "string list"
  Env :: "string list"
  Stdout_to :: buffer
  Stderr_to :: buffer

datatype run_error = ExitError int | OtherError string

record Ran =
  err :: "run_error option"
  written :: "(stream \<times> string) list"
  duration :: string

type_synonym runner = "Cmd \<Rightarrow> Ran"

text \<open>\<open>b.String()\<close> after the run: what was written to the streams attached to \<open>b\<close>.\<close>

definition buffer_String :: "Cmd \<Rightarrow> Ran \<Rightarrow> buffer \<Rightarrow> string" where
  "buffer_String cmd res b =
     concat (map snd (filter (\<lambda>(fd, chunk).
        (case fd of fd_stdout \<Rightarrow> Stdout_to cmd | fd_stderr \<Rightarrow> Stderr_to cmd) = b) (written res)))"

section \<open>Role assumption\<close>

text \<open>\<open>pkg.AssumeRole\<close> (\<open>internal/pkg\<close>): the sanitised role part and the session name.\<close>

definition AssumeRole_safeRolePart :: "string \<Rightarrow> string" where
  "AssumeRole_safeRolePart roleToAssume =
     (let safeRolePart = ReplaceAll roleToAssume (CHR ''/'') (CHR ''-'');
          safeRolePart = ReplaceAll safeRolePart (CHR '' '') (CHR ''_'')
      in if length safeRolePart > 30 then take 30 safeRolePart else safeRolePart)"

definition AssumeRole_sessionName :: "string \<Rightarrow> string \<Rightarrow> int \<Rightarrow> string" where
  "AssumeRole_sessionName sessionNameSuffix roleToAssume pid =
     (let sessionName =
            sessionNameSuffix @ ''-'' @ AssumeRole_safeRolePart roleToAssume @ ''-'' @ fmt_d pid
      in if length sessionName > 64 then take 64 sessionName else sessionName)"

definition AssumeRole ::
  "bool \<Rightarrow> sts_client \<Rightarrow> int \<Rightarrow> string \<Rightarrow> string \<Rightarrow> string \<Rightarrow> string
     \<Rightarrow> event list \<times> (string + sts_Credentials)" where
  "AssumeRole VerboseMode sts pid baseCfg_Region accountID roleToAssume sessionNameSuffix =
     (let warn = (if baseCfg_Region = []
                  then LogVerbosef VerboseMode
                         (''Warning: base AWS config for STS AssumeRole call had no region, defaulting to ''
                            @ FallbackRegion)
                  else []);
          region = (if baseCfg_Region = [] then FallbackRegion else baseCfg_Region);
          roleArn = ''arn:aws:iam::'' @ accountID @ '':role/'' @ roleToAssume;
          sessionName = AssumeRole_sessionName sessionNameSuffix roleToAssume pid;
          input = \<lparr>RoleArn = roleArn, RoleSessionName = sessionName,
                   DurationSeconds = SessionDurationSeconds\<rparr>;
          attempt = LogVerbosef VerboseMode
                      (''Attempting AssumeRole: ARN='' @ roleArn @ '', SessionName='' @ sessionName);
          invalid = ''assume role response for role ARN '' @ roleArn
                      @ '' did not contain valid credentials''
      in case sts region input of
           Inl e \<Rightarrow>
             (warn @ attempt,
              Inl (''sts:AssumeRole call failed for role ARN '' @ roleArn @ '': '' @ e))
         | Inr output \<Rightarrow>
             (case Credentials output of
                None \<Rightarrow> (warn @ attempt, Inl invalid)
              | Some creds \<Rightarrow>
                  (if AccessKeyId creds = None \<or> SecretAccessKey creds = None
                        \<or> SessionToken creds = None
                   then (warn @ attempt, Inl invalid)
                   else (warn @ attempt
                           @ LogVerbosef VerboseMode (''Successfully assumed role '' @ roleArn),
                         Inr creds))))"

text \<open>\<open>assumeRole\<close> of \<open>saws.go\<close>: only the path separator is replaced, and the role part is
  not shortened before the whole name is cut.\<close>

definition assumeRole_sessionName :: "string \<Rightarrow> string \<Rightarrow> int \<Rightarrow> string" where
  "assumeRole_sessionName sessionNameSuffix roleToAssume pid =
     (let sessionName =
            sessionNameSuffix @ ''-'' @ ReplaceAll roleToAssume (CHR ''/'') (CHR ''-'')
              @ ''-'' @ fmt_d pid
      in if length sessionName > 64 then take 64 sessionName else sessionName)"

definition assumeRole ::
  "sts_client \<Rightarrow> int \<Rightarrow> string \<Rightarrow> string \<Rightarrow> string \<Rightarrow> string
     \<Rightarrow> string + sts_Credentials" where
  "assumeRole sts pid baseCfg_Region accountID roleToAssume sessionNameSuffix =
     (let roleArn = ''arn:aws:iam::'' @ accountID @ '':role/'' @ roleToAssume;
          sessionName = assumeRole_sessionName sessionNameSuffix roleToAssume pid;
          assumeRoleInput = \<lparr>RoleArn = roleArn, RoleSessionName = sessionName,
                             DurationSeconds = 3600\<rparr>
      in case sts baseCfg_Region assumeRoleInput of
           Inl e \<Rightarrow> Inl (''sts:AssumeRole call failed for role '' @ roleArn @ '': '' @ e)
         | Inr output \<Rightarrow>
             (case Credentials output of
                None \<Rightarrow>
                  Inl (''assume role response for '' @ roleArn
                         @ '' did not contain valid credentials'')
              | Some creds \<Rightarrow>
                  (if AccessKeyId creds = None \<or> SecretAccessKey creds = None
                        \<or> SessionToken creds = None
                   then Inl (''assume role response for '' @ roleArn
                               @ '' did not contain valid credentials'')
                   else Inr creds)))"

section \<open>The worker of one account and region\<close>

abbreviation q :: string where
  "q \<equiv> [CHR 0x27]"

text \<open>
  \<open>saws.ProcessAccountRegion\<close> (\<open>internal/app/saws\<close>). The environment of the
  subprocess: the entries of \<open>os.Environ()\<close> that start with none of nine names, then the
  three credentials and the region twice.
\<close>

definition ProcessAccountRegion_cleanEnv :: "string list \<Rightarrow> string list" where
  "ProcessAccountRegion_cleanEnv originalEnv =
     filter (\<lambda>envVar.
        \<not> prefix ''AWS_PROFILE='' envVar \<and>
        \<not> prefix ''AWS_ACCESS_KEY_ID='' envVar \<and>
        \<not> prefix ''AWS_SECRET_ACCESS_KEY='' envVar \<and>
        \<not> prefix ''AWS_SESSION_TOKEN='' envVar \<and>
        \<not> prefix ''AWS_SECURITY_TOKEN='' envVar \<and>
        \<not> prefix ''AWS_REGION='' envVar \<and>
        \<not> prefix ''AWS_DEFAULT_REGION='' envVar \<and>
        \<not> prefix ''AWS_CONFIG_FILE='' envVar \<and>
        \<not> prefix ''AWS_SHARED_CREDENTIALS_FILE='' envVar) originalEnv"

definition inject_credentials ::
  "string list \<Rightarrow> string \<Rightarrow> string \<Rightarrow> string \<Rightarrow> string \<Rightarrow> string list" where
  "inject_credentials cleanEnv accessKeyId secretAccessKey sessionToken region =
     cleanEnv @ [''AWS_ACCESS_KEY_ID='' @ accessKeyId]
       @ [''AWS_SECRET_ACCESS_KEY='' @ secretAccessKey]
       @ [''AWS_SESSION_TOKEN='' @ sessionToken]
       @ [''AWS_REGION='' @ region]
       @ [''AWS_DEFAULT_REGION='' @ region]"

definition ProcessAccountRegion_Env ::
  "string list \<Rightarrow> string \<Rightarrow> string \<Rightarrow> string \<Rightarrow> string \<Rightarrow> string list" where
  "ProcessAccountRegion_Env originalEnv accessKeyId secretAccessKey sessionToken region =
     inject_credentials (ProcessAccountRegion_cleanEnv originalEnv)
       accessKeyId secretAccessKey sessionToken region"

text \<open>The exit code and the status taken from the error of \<open>cmd.Run()\<close>.\<close>

definition exitCode_of :: "run_error option \<Rightarrow> int" where
  "exitCode_of e = (case e of None \<Rightarrow> 0 | Some (ExitError n) \<Rightarrow> n | Some (OtherError _) \<Rightarrow> - 1)"

definition status_of :: "run_error option \<Rightarrow> string" where
  "status_of e = (case e of None \<Rightarrow> ''SUCCESS'' | Some _ \<Rightarrow> ''FAILED'')"

text \<open>The lines printed for a unit whose command was run.\<close>

definition Result_header :: "string \<Rightarrow> string \<Rightarrow> string \<Rightarrow> int \<Rightarrow> string \<Rightarrow> string" where
  "Result_header accountName region status exitCode dur =
     ''--- Result (Account: '' @ accountName @ '', Region: '' @ region @ '', Status: '' @ status
       @ '', Exit Code: '' @ fmt_d exitCode @ '', Duration: '' @ dur @ '') ---''"

definition Result_block ::
  "string \<Rightarrow> string \<Rightarrow> string \<Rightarrow> int \<Rightarrow> string \<Rightarrow> string \<Rightarrow> string \<Rightarrow> string list" where
  "Result_block accountName region status exitCode dur stdOutput errOutput =
     [Result_header accountName region status exitCode dur]
       @ (if stdOutput \<noteq> [] then [''[STDOUT]'', stdOutput] else [])
       @ (if errOutput \<noteq> []
          then [if exitCode \<noteq> 0 then ''[STDERR]'' else ''[STDERR (Exit Code 0)]'', errOutput]
          else [])
       @ [''--- End Result ---'']"

definition ProcessAccountRegion_Cmd :: "string \<Rightarrow> string list \<Rightarrow> Cmd" where
  "ProcessAccountRegion_Cmd commandToRun env =
     \<lparr>Path = ''bash'', Args = [''bash'', ''-c'', commandToRun], Env = env,
      Stdout_to = outb, Stderr_to = errb\<rparr>"

text \<open>The worker gives what it wrote and the number of \<open>successCounter.Add(1)\<close> calls it
  made. \<open>defer wg.Done()\<close> runs on every return.\<close>

definition ProcessAccountRegion ::
  "bool \<Rightarrow> sts_client \<Rightarrow> runner \<Rightarrow> string list \<Rightarrow> int \<Rightarrow> string \<Rightarrow> AppConfig
     \<Rightarrow> string \<Rightarrow> string \<Rightarrow> string \<Rightarrow> string \<Rightarrow> event list \<times> nat" where
  "ProcessAccountRegion VerboseMode sts run environ pid baseCfg_Region appCfg
       accountName roleToAssume commandToRun region =
     (case map_of (Accounts appCfg) accountName of
        None \<Rightarrow>
          (log_Printf
             (''ERROR: Account ID not found for SAWS config account name '' @ q @ accountName @ q
                @ ''. Skipping.''), 0)
      | Some accountID \<Rightarrow>
          (case AssumeRole VerboseMode sts pid baseCfg_Region accountID roleToAssume
                  ''CmdExecSess'' of
             (evs, Inl e) \<Rightarrow>
               (evs @ log_Printf
                        (''ERROR: Assume Role Failed Account:'' @ accountName @ '' Region:'' @ region
                           @ '' Role:'' @ roleToAssume @ '': '' @ e), 0)
           | (evs, Inr assumedRoleCreds) \<Rightarrow>
               (case (AccessKeyId assumedRoleCreds, SecretAccessKey assumedRoleCreds,
                      SessionToken assumedRoleCreds) of
                  (Some accessKeyId, Some secretAccessKey, Some sessionToken) \<Rightarrow>
                    (let cmd = ProcessAccountRegion_Cmd commandToRun
                                 (ProcessAccountRegion_Env environ accessKeyId secretAccessKey
                                    sessionToken region);
                         res = run cmd;
                         exitCode = exitCode_of (err res);
                         status = status_of (err res);
                         failure = (case err res of
                                      Some (OtherError e) \<Rightarrow>
                                        log_Printf
                                          (''ERROR executing command '' @ q @ commandToRun @ q
                                             @ '' for Account: '' @ accountName @ '', Region: ''
                                             @ region @ '': '' @ e)
                                    | _ \<Rightarrow> []);
                         stdOutput = TrimSpace (buffer_String cmd res outb);
                         errOutput = TrimSpace (buffer_String cmd res errb)
                     in (evs @ failure
                           @ map Stdout (Result_block accountName region status exitCode
                                           (duration res) stdOutput errOutput),
                         if exitCode = 0 then 1 else 0))
                | _ \<Rightarrow> (evs @ [Panic], 0))))"

text \<open>
  \<open>processAccountRegion\<close> of \<open>saws.go\<close>: eight names are stripped (not
  \<open>AWS_SECURITY_TOKEN\<close>), both streams go to the one buffer \<open>outb\<close>, and the header and the
  trimmed buffer are always printed.
\<close>

definition processAccountRegion_cleanEnv :: "string list \<Rightarrow> string list" where
  "processAccountRegion_cleanEnv originalEnv =
     filter (\<lambda>envVar.
        \<not> prefix ''AWS_PROFILE='' envVar \<and>
        \<not> prefix ''AWS_ACCESS_KEY_ID='' envVar \<and>
        \<not> prefix ''AWS_SECRET_ACCESS_KEY='' envVar \<and>
        \<not> prefix ''AWS_SESSION_TOKEN='' envVar \<and>
        \<not> prefix ''AWS_REGION='' envVar \<and>
        \<not> prefix ''AWS_DEFAULT_REGION='' envVar \<and>
        \<not> prefix ''AWS_CONFIG_FILE='' envVar \<and>
        \<not> prefix ''AWS_SHARED_CREDENTIALS_FILE='' envVar) originalEnv"

definition processAccountRegion_Env ::
  "string list \<Rightarrow> string \<Rightarrow> string \<Rightarrow> string \<Rightarrow> string \<Rightarrow> string list" where
  "processAccountRegion_Env originalEnv accessKeyId secretAccessKey sessionToken region =
     inject_credentials (processAccountRegion_cleanEnv originalEnv)
       accessKeyId secretAccessKey sessionToken region"

definition processAccountRegion_Cmd :: "string \<Rightarrow> string list \<Rightarrow> Cmd" where
  "processAccountRegion_Cmd commandToRun env =
     \<lparr>Path = ''bash'', Args = [''bash'', ''-c'', commandToRun], Env = env,
      Stdout_to = outb, Stderr_to = outb\<rparr>"

definition Command_Output_header :: "string \<Rightarrow> string \<Rightarrow> int \<Rightarrow> string \<Rightarrow> string" where
  "Command_Output_header accountName region exitCode dur =
     ''--- Command Output (Account: '' @ accountName @ '', Region: '' @ region
       @ '', Exit Code: '' @ fmt_d exitCode @ '', Duration: '' @ dur @ '') ---''"

definition configFileName :: string where
  "configFileName = ''saws-config.yaml''"

definition processAccountRegion ::
  "sts_client \<Rightarrow> runner \<Rightarrow> string list \<Rightarrow> int \<Rightarrow> string \<Rightarrow> (string \<times> string) list
     \<Rightarrow> string \<Rightarrow> string \<Rightarrow> string \<Rightarrow> string \<Rightarrow> event list \<times> nat" where
  "processAccountRegion sts run environ pid baseCfg_Region accounts
       accountName roleToAssume commandToRun region =
     (case map_of accounts accountName of
        None \<Rightarrow>
          (log_Printf
             (''Error: Account ID not found for name '' @ q @ accountName @ q
                @ '' (check config file '' @ q @ configFileName @ q @ ''). Skipping.''), 0)
      | Some accountID \<Rightarrow>
          (case assumeRole sts pid baseCfg_Region accountID roleToAssume ''CmdExecSession'' of
             Inl e \<Rightarrow>
               (log_Printf
                  (''ERROR: Assume Role Failed for Account: '' @ accountName @ '' Region: ''
                     @ region @ '' Role: '' @ roleToAssume @ '': '' @ e), 0)
           | Inr finalCreds \<Rightarrow>
               (case (AccessKeyId finalCreds, SecretAccessKey finalCreds,
                      SessionToken finalCreds) of
                  (Some accessKeyId, Some secretAccessKey, Some sessionToken) \<Rightarrow>
                    (let cmd = processAccountRegion_Cmd commandToRun
                                 (processAccountRegion_Env environ accessKeyId secretAccessKey
                                    sessionToken region);
                         res = run cmd;
                         exitCode = exitCode_of (err res);
                         failure = (case err res of
                                      Some (OtherError e) \<Rightarrow>
                                        log_Printf
                                          (''ERROR executing command for Account: '' @ accountName
                                             @ '' Region: '' @ region @ '': '' @ e)
                                    | _ \<Rightarrow> [])
                     in (failure
                           @ [Stdout (Command_Output_header accountName region exitCode
                                        (duration res)),
                              Stdout (TrimSpace (buffer_String cmd res outb))],
                         if exitCode = 0 then 1 else 0))
                | _ \<Rightarrow> ([Panic], 0))))"

section \<open>The command line and the outside world of \<open>main\<close>\<close>

text \<open>The flags, each under its name on the command line.\<close>

record flags =
  flag_r :: string
  flag_s :: string
  flag_config :: string
  flag_h :: bool
  flag_region :: string
  flag_v :: bool
  flag_c :: string
  flag_regions :: string
  flag_a :: bool
  flag_e :: bool
  flag_ssm :: bool
  flag_i :: string
  flag_ecs :: bool
  flag_ecs_cluster :: string
  flag_ecs_task :: string
  flag_ecs_container :: string
  flag_ecs_command :: string

text \<open>
  What \<open>main\<close> asks of the outside: the path search for the configuration file, the file
  system and the YAML decoder, the search for \<open>aws\<close> on the path, the two calls of
  \<open>LoadDefaultConfig\<close> (for the shared profile alone, giving \<open>tempCfg.Region\<close>; with the
  region fixed, giving \<open>baseCfg.Region\<close>), \<open>filepath.Match\<close>, the token service and the
  subprocess as the \<open>i\<close>-th worker meets them, the environment, the process id, the
  outcome of the interactive flows (an error text, if any) and the rendered total time.
\<close>

record world =
  config_path :: "string + string"
  ReadFile :: "string \<Rightarrow> string + string"
  yaml_Unmarshal :: "string \<Rightarrow> string + AppConfig"
  LookPath_aws :: bool
  ambient_config :: "string + string"
  base_config :: "string + string"
  filepath_Match :: "string \<Rightarrow> string \<Rightarrow> string + bool"
  sts_at :: "nat \<Rightarrow> sts_client"
  run_at :: "nat \<Rightarrow> runner"
  Environ :: "string list"
  Getpid :: int
  interactive :: "string option"
  totalDuration :: string

text \<open>
  How a run ends: the exit status, what the main goroutine wrote, and the workers it
  started, in the order of the \<open>go\<close> statements, each with its account and region, what
  it wrote and what it added to the success counter. The workers run concurrently, so
  their writes may interleave; each worker's own writes are kept in their order.
\<close>

record ending =
  exit_code :: int
  wrote :: "event list"
  workers :: "((string \<times> string) \<times> event list \<times> nat) list"

definition os_Exit :: "int \<Rightarrow> event list \<Rightarrow> ending" where
  "os_Exit code evs = \<lparr>exit_code = code, wrote = evs, workers = []\<rparr>"

text \<open>\<open>usage()\<close> prints the usage text and ends with \<open>os.Exit(1)\<close>.\<close>

definition usage :: "event list \<Rightarrow> ending" where
  "usage evs = os_Exit 1 (evs @ [UsageText])"

abbreviation dq :: string where
  "dq \<equiv> [CHR 0x22]"

text \<open>The keys of a Go map, each once. \<open>range\<close> visits them in no fixed order; every use
  below sorts the names it collects.\<close>

definition map_keys :: "(string \<times> string) list \<Rightarrow> string list" where
  "map_keys m = remdups (map fst m)"

definition nat_d :: "nat \<Rightarrow> string" where
  "nat_d n = fmt_d (int n)"

section \<open>\<open>main\<close> of \<open>cmd/saws\<close>\<close>

definition envRoleVar :: string where
  "envRoleVar = ''SAWS_ROLE''"

definition LoadConfig :: "bool \<Rightarrow> world \<Rightarrow> string \<Rightarrow> event list \<times> (string + AppConfig)" where
  "LoadConfig VerboseMode w filePath =
     (case ReadFile w filePath of
        Inl e \<Rightarrow>
          ([], Inl (''failed to read SAWS config file '' @ q @ filePath @ q @ '': '' @ e))
      | Inr data \<Rightarrow>
          (case yaml_Unmarshal w data of
             Inl e \<Rightarrow>
               ([], Inl (''failed to parse YAML from SAWS config file '' @ q @ filePath @ q
                           @ '': '' @ e))
           | Inr loadedAppConfig \<Rightarrow>
               (if length (map_keys (Accounts loadedAppConfig)) = 0
                then ([], Inl (''SAWS config validation failed: '' @ q @ ''accounts'' @ q
                                 @ '' map cannot be empty in '' @ q @ filePath @ q))
                else
                  ((if length (CommonRegions loadedAppConfig) = 0
                    then LogVerbosef VerboseMode
                           (''Warning: '' @ q @ ''common_regions'' @ q
                              @ '' list is empty in SAWS config '' @ q @ filePath @ q
                              @ ''. Region selection might be limited.'')
                    else [])
                   @ (if length (map_keys (Roles loadedAppConfig)) = 0
                      then LogVerbosef VerboseMode
                             (''Info: '' @ q @ ''roles'' @ q
                                @ '' map is empty or missing in SAWS config '' @ q @ filePath @ q
                                @ ''. Roles must be provided via -r flag or '' @ envRoleVar
                                @ '' env var for session modes, or selected manually.'')
                      else [])
                   @ LogVerbosef VerboseMode
                       (''Loaded SAWS config: ''
                          @ nat_d (length (map_keys (Accounts loadedAppConfig))) @ '' accounts, ''
                          @ nat_d (length (CommonRegions loadedAppConfig)) @ '' regions, ''
                          @ nat_d (length (map_keys (Roles loadedAppConfig))) @ '' roles from ''
                          @ filePath),
                   Inr loadedAppConfig))))"

text \<open>The target regions of command mode: the events, and the regions or the status of
  \<open>os.Exit\<close>.\<close>

definition cmd_targetRegions ::
  "bool \<Rightarrow> string \<Rightarrow> string + string \<Rightarrow> event list \<times> (int + string list)" where
  "cmd_targetRegions VerboseMode cmdRegionsStr LoadDefaultConfig =
     (let regionsInput = TrimSpace cmdRegionsStr
      in if regionsInput \<noteq> []
         then (let rawRegions = Split regionsInput (CHR '','');
                   targetRegionsCmd = filter (\<lambda>trimmed. trimmed \<noteq> []) (map TrimSpace rawRegions)
               in if length targetRegionsCmd = 0
                  then ([Stderr ''Error: -regions flag provided but contained no valid region names after trimming.''],
                        Inl 1)
                  else (LogVerbosef VerboseMode
                          (''Cmd Mode: Using specified regions: '' @ fmt_v targetRegionsCmd),
                        Inr targetRegionsCmd))
         else (let begun = LogVerbosef VerboseMode
                             ''Cmd Mode: No -regions flag provided. Determining default region...'';
                   defaultCmdRegion = FallbackRegion
               in case LoadDefaultConfig of
                    Inl errCfg \<Rightarrow>
                      (begun @ LogVerbosef VerboseMode
                                 (''Warning: Could not load AWS config to determine default region: ''
                                    @ errCfg @ ''. Falling back to '' @ q @ defaultCmdRegion @ q @ ''.''),
                       Inr [defaultCmdRegion])
                  | Inr tempCfg_Region \<Rightarrow>
                      (if tempCfg_Region = []
                       then (begun @ LogVerbosef VerboseMode
                                       (''Warning: Could not determine default region from AWS config/environment. Falling back to ''
                                          @ q @ defaultCmdRegion @ q @ ''.''),
                             Inr [defaultCmdRegion])
                       else (begun @ LogVerbosef VerboseMode
                                       (''Cmd Mode: Using default region from AWS config/environment: ''
                                          @ tempCfg_Region),
                             Inr [tempCfg_Region]))))"

text \<open>The patterns of the selector: split at commas, each piece trimmed, empty ones left out.\<close>

definition cmd_selectorPatterns :: "string \<Rightarrow> string list" where
  "cmd_selectorPatterns selector =
     filter (\<lambda>trimmed. trimmed \<noteq> []) (map TrimSpace (Split selector (CHR '','')))"

text \<open>The inner loop over the patterns for one account name: a pattern in error is logged
  and passed over, the first match ends the loop.\<close>

fun cmd_match_patterns ::
  "bool \<Rightarrow> (string \<Rightarrow> string \<Rightarrow> string + bool) \<Rightarrow> string list \<Rightarrow> string
     \<Rightarrow> event list \<times> bool" where
  "cmd_match_patterns VerboseMode Match [] accName = ([], False)"
| "cmd_match_patterns VerboseMode Match (pattern # rest) accName =
     (case Match pattern accName of
        Inl errMatch \<Rightarrow>
          (case cmd_match_patterns VerboseMode Match rest accName of
             (evs, found) \<Rightarrow>
               (LogVerbosef VerboseMode
                  (''Warning: Invalid pattern '' @ q @ pattern @ q @ '' in selector: '' @ errMatch
                     @ ''.'') @ evs, found))
      | Inr match \<Rightarrow>
          (if match then ([], True)
           else cmd_match_patterns VerboseMode Match rest accName))"

text \<open>The outer loop over the sorted account names; \<open>matchedAccountsMap\<close> is kept as the
  list of its keys.\<close>

fun cmd_match_accounts ::
  "bool \<Rightarrow> (string \<Rightarrow> string \<Rightarrow> string + bool) \<Rightarrow> string list \<Rightarrow> string list
     \<Rightarrow> string list \<Rightarrow> event list \<times> string list" where
  "cmd_match_accounts VerboseMode Match selectorPatterns [] matchedAccountsMap =
     ([], matchedAccountsMap)"
| "cmd_match_accounts VerboseMode Match selectorPatterns (accName # rest) matchedAccountsMap =
     (case cmd_match_patterns VerboseMode Match selectorPatterns accName of
        (evs, found) \<Rightarrow>
          (case cmd_match_accounts VerboseMode Match selectorPatterns rest
                  (if found then List.insert accName matchedAccountsMap else matchedAccountsMap) of
             (evs', m) \<Rightarrow> (evs @ evs', m)))"

definition cmd_targetAccountNames ::
  "bool \<Rightarrow> (string \<Rightarrow> string \<Rightarrow> string + bool) \<Rightarrow> AppConfig \<Rightarrow> bool \<Rightarrow> string
     \<Rightarrow> event list \<times> (int + string list)" where
  "cmd_targetAccountNames VerboseMode Match appConfig processAll selector =
     (let allAccountNamesSorted = sort_Strings (map_keys (Accounts appConfig))
      in if processAll
         then (LogVerbosef VerboseMode
                 (''Cmd Mode Accounts: Processing all '' @ nat_d (length allAccountNamesSorted)
                    @ '' defined accounts.''),
               Inr allAccountNamesSorted)
         else (let selectorPatterns = cmd_selectorPatterns selector
               in if length selectorPatterns = 0
                  then ([Stderr (''Error: Selector flag '' @ q @ ''-s '' @ dq @ selector @ dq @ q
                                   @ '' provided no valid names/patterns.'')], Inl 1)
                  else (case cmd_match_accounts VerboseMode Match selectorPatterns
                               allAccountNamesSorted [] of
                          (evs, matchedAccountsMap) \<Rightarrow>
                            (let targetAccountNames = sort_Strings matchedAccountsMap;
                                 evs = LogVerbosef VerboseMode
                                         (''Cmd Mode: Applying selector patterns: ''
                                            @ fmt_v selectorPatterns)
                                       @ evs
                                       @ LogVerbosef VerboseMode
                                           (''Cmd Mode: Selected ''
                                              @ nat_d (length targetAccountNames)
                                              @ '' account(s) using selector '' @ q @ selector @ q
                                              @ '': '' @ fmt_v targetAccountNames)
                             in if length targetAccountNames = 0
                                then (evs @ [Stderr (''Error: No accounts found matching selector patterns: ''
                                                       @ fmt_v selectorPatterns)], Inl 1)
                                else (evs, Inr targetAccountNames)))))"

text \<open>The two nested loops of \<open>go\<close> statements: one unit per account name and region, the
  regions innermost.\<close>

definition spawn_units :: "string list \<Rightarrow> string list \<Rightarrow> (string \<times> string) list" where
  "spawn_units targetAccountNames targetRegions =
     concat (map (\<lambda>accountName. map (\<lambda>region. (accountName, region)) targetRegions)
               targetAccountNames)"

text \<open>The verdict after \<open>wg.Wait()\<close>.\<close>

definition cmd_finalVerdict :: "bool \<Rightarrow> int \<Rightarrow> int \<Rightarrow> string \<Rightarrow> int \<times> event list" where
  "cmd_finalVerdict VerboseMode finalSuccessCount totalExecutions dur =
     (let finished = LogVerbosef VerboseMode
                       (''Cmd Mode: Finished '' @ fmt_d totalExecutions @ '' executions in ''
                          @ dur @ ''.'')
      in if finalSuccessCount = totalExecutions
         then (0, finished @ LogVerbosef VerboseMode
                              (''Cmd Mode: All '' @ fmt_d finalSuccessCount
                                 @ '' executions completed successfully.''))
         else (1, finished @ [Stderr (''Cmd Mode: '' @ fmt_d finalSuccessCount @ '' out of ''
                                        @ fmt_d totalExecutions
                                        @ '' targeted executions completed successfully. ''
                                        @ fmt_d (totalExecutions - finalSuccessCount)
                                        @ '' failed.'')]))"

text \<open>The workers, numbered in the order of the \<open>go\<close> statements.\<close>

definition cmd_run_units ::
  "world \<Rightarrow> bool \<Rightarrow> AppConfig \<Rightarrow> string \<Rightarrow> string \<Rightarrow> string \<Rightarrow> (string \<times> string) list
     \<Rightarrow> ((string \<times> string) \<times> event list \<times> nat) list" where
  "cmd_run_units w VerboseMode appConfig baseCfg_Region roleCmd command units =
     map (\<lambda>(i, (accName, reg)).
            ((accName, reg),
             ProcessAccountRegion VerboseMode (sts_at w i) (run_at w i) (Environ w) (Getpid w)
               baseCfg_Region appConfig accName roleCmd command reg))
         (enumerate 0 units)"

text \<open>\<open>successfulExecutions.Load()\<close> after the join: the additions of all workers.\<close>

definition successfulExecutions :: "((string \<times> string) \<times> event list \<times> nat) list \<Rightarrow> int" where
  "successfulExecutions results = int (sum_list (map (\<lambda>r. snd (snd r)) results))"

definition cmd_commandMode :: "world \<Rightarrow> flags \<Rightarrow> AppConfig \<Rightarrow> event list \<Rightarrow> ending" where
  "cmd_commandMode w f appConfig evs =
     (if flag_r f = []
      then usage (evs @ [Stderr ''Error: Role (-r) is mandatory for Command Execution Mode.''])
      else if flag_a f \<and> flag_s f \<noteq> []
      then usage (evs @ [Stderr ''Error: Cannot use both -a and -s in Command Mode.''])
      else if \<not> flag_a f \<and> flag_s f = []
      then usage (evs @ [Stderr ''Error: Must use -a or -s in Command Mode.''])
      else if \<not> LookPath_aws w
      then os_Exit 1 (evs @ [Stderr (''Error: AWS CLI ('' @ q @ ''aws'' @ q
                                       @ '') not found in PATH. Required for Command Mode.'')])
      else
        (let warn =
               (if flag_ecs_cluster f \<noteq> [] \<or> flag_ecs_task f \<noteq> [] \<or> flag_ecs_container f \<noteq> []
                     \<or> flag_ecs_command f \<noteq> []
                then [Stderr ''Warning: --ecs-* flags are ignored in command execution mode (-c). Used with -ecs.'']
                else [])
               @ (if flag_i f \<noteq> []
                  then [Stderr ''Warning: -i (instance-id) flag ignored in command execution mode (-c). Used with -ssm.'']
                  else [])
         in case cmd_targetRegions (flag_v f) (flag_regions f) (ambient_config w) of
              (e1, Inl code) \<Rightarrow> os_Exit code (evs @ warn @ e1)
            | (e1, Inr targetRegionsCmd) \<Rightarrow>
                (case cmd_targetAccountNames (flag_v f) (filepath_Match w) appConfig (flag_a f)
                        (flag_s f) of
                   (e2, Inl code) \<Rightarrow> os_Exit code (evs @ warn @ e1 @ e2)
                 | (e2, Inr targetAccountNames) \<Rightarrow>
                     (case base_config w of
                        Inl errCfg \<Rightarrow>
                          os_Exit 1 (evs @ warn @ e1 @ e2
                                       @ [Stderr (''Error loading base AWS configuration (profile ''
                                                    @ q @ BaseProfileForAssume @ q @ ''): ''
                                                    @ errCfg)])
                      | Inr baseCfg_Region \<Rightarrow>
                          (let totalExecutions =
                                 int (length targetAccountNames) * int (length targetRegionsCmd);
                               plan = LogVerbosef (flag_v f)
                                        (''Cmd Mode: Planning '' @ fmt_d totalExecutions
                                           @ '' executions ('' @ nat_d (length targetAccountNames)
                                           @ '' accounts x '' @ nat_d (length targetRegionsCmd)
                                           @ '' regions).'');
                               results = cmd_run_units w (flag_v f) appConfig baseCfg_Region
                                           (flag_r f) (flag_c f)
                                           (spawn_units targetAccountNames targetRegionsCmd);
                               finalSuccessCount = successfulExecutions results
                           in case cmd_finalVerdict (flag_v f) finalSuccessCount totalExecutions
                                     (totalDuration w) of
                                (code, e3) \<Rightarrow>
                                  \<lparr>exit_code = code, wrote = evs @ warn @ e1 @ e2 @ plan @ e3,
                                   workers = results\<rparr>)))))"

text \<open>
  The sub-shell, SSM and ECS flows are interactive: of each only its end is kept, status
  0 or status 1 after an error line. Their warnings about flags that do not apply, and
  the verbose lines of \<open>FindConfigPath\<close>, are not listed.
\<close>

definition interactive_flow :: "world \<Rightarrow> event list \<Rightarrow> ending" where
  "interactive_flow w evs =
     (case interactive w of None \<Rightarrow> os_Exit 0 evs | Some e \<Rightarrow> os_Exit 1 (evs @ [Stderr e]))"

definition cmd_main :: "world \<Rightarrow> flags \<Rightarrow> ending" where
  "cmd_main w f =
     (case config_path w of
        Inl e \<Rightarrow> os_Exit 1 [Stderr (''SAWS Config Error: '' @ e)]
      | Inr sawsConfigPath \<Rightarrow>
          (case LoadConfig (flag_v f) w sawsConfigPath of
             (evs, Inl e) \<Rightarrow> os_Exit 1 (evs @ [Stderr (''SAWS Config Error: '' @ e)])
           | (evs, Inr appConfig) \<Rightarrow>
               (if flag_h f then usage evs
                else
                  (let isCommandMode = (flag_c f \<noteq> []);
                       isSessionMode = flag_e f;
                       isSSMSessionMode = flag_ssm f;
                       isECSMode = flag_ecs f;
                       modeCount = (if isCommandMode then 1 else 0)
                                   + (if isSessionMode then 1 else 0)
                                   + (if isSSMSessionMode then 1 else 0)
                                   + (if isECSMode then (1::nat) else 0)
                   in if modeCount > 1
                      then usage (evs @ [Stderr ''Error: Cannot use -c, -e, -ssm, and -ecs flags together. Please choose one mode.''])
                      else if modeCount = 0
                      then usage (evs @ [Stderr ''Error: No mode selected. Please specify -c, -e, -ssm, or -ecs.''])
                      else if isSessionMode then interactive_flow w evs
                      else if isSSMSessionMode then interactive_flow w evs
                      else if isECSMode then interactive_flow w evs
                      else if isCommandMode then cmd_commandMode w f appConfig evs
                      else os_Exit 0 evs))))"

section \<open>\<open>main\<close> of \<open>saws.go\<close>\<close>

text \<open>\<open>log.Fatal\<close> and \<open>log.Fatalf\<close> write the line and end with \<open>os.Exit(1)\<close>.\<close>

definition log_Fatalf :: "event list \<Rightarrow> string \<Rightarrow> ending" where
  "log_Fatalf evs msg = os_Exit 1 (evs @ log_Printf msg)"

definition awsConfigDir :: string where
  "awsConfigDir = ''.aws''"

definition loadConfig :: "world \<Rightarrow> string \<Rightarrow> event list \<times> (string + AppConfig)" where
  "loadConfig w filePath =
     (case ReadFile w filePath of
        Inl e \<Rightarrow> ([], Inl (''failed to read config file '' @ q @ filePath @ q @ '': '' @ e))
      | Inr data \<Rightarrow>
          (case yaml_Unmarshal w data of
             Inl e \<Rightarrow>
               ([], Inl (''failed to parse YAML config file '' @ q @ filePath @ q @ '': '' @ e))
           | Inr config \<Rightarrow>
               (if length (map_keys (Accounts config)) = 0
                then ([], Inl (''config validation failed: '' @ q @ ''accounts'' @ q
                                 @ '' map cannot be empty in '' @ q @ filePath @ q))
                else if length (CommonRegions config) = 0
                then ([], Inl (''config validation failed: '' @ q @ ''common_regions'' @ q
                                 @ '' list cannot be empty in '' @ q @ filePath @ q))
                else (log_Printf
                        (''Successfully loaded configuration: ''
                           @ nat_d (length (map_keys (Accounts config))) @ '' accounts, ''
                           @ nat_d (length (CommonRegions config)) @ '' regions, ''
                           @ nat_d (length (map_keys (Roles config))) @ '' roles defined in, ''
                           @ filePath),
                      Inr config))))"

definition saws_targetRegions ::
  "string \<Rightarrow> string + string \<Rightarrow> event list \<times> (int + string list)" where
  "saws_targetRegions regionsStr LoadDefaultConfig =
     (let regionsInput = TrimSpace regionsStr
      in if regionsInput \<noteq> []
         then (let targetRegions = Split regionsInput (CHR '','');
                   ignored = concat (map (\<lambda>r. if TrimSpace r \<noteq> [] then []
                                              else log_Printf
                                                     ''Warning: Empty region name ignored in -regions flag.'')
                                      targetRegions);
                   validRegions = filter (\<lambda>trimmed. trimmed \<noteq> []) (map TrimSpace targetRegions)
               in if length validRegions = 0
                  then (ignored @ log_Printf
                                    ''Error: No valid regions specified after parsing -regions flag.'',
                        Inl 1)
                  else (ignored, Inr validRegions))
         else (let begun = log_Printf
                             ''No regions specified via -regions flag. Determining default region...''
               in case LoadDefaultConfig of
                    Inl e \<Rightarrow>
                      (begun @ log_Printf
                                 (''Warning: Could not load AWS config to determine default region: ''
                                    @ e @ ''. Falling back to '' @ q @ FallbackRegion @ q @ ''.''),
                       Inr [FallbackRegion])
                  | Inr tempCfg_Region \<Rightarrow>
                      (if tempCfg_Region = []
                       then (begun @ log_Printf
                                       (''Warning: Could not determine default region from AWS config/environment. Falling back to ''
                                          @ q @ FallbackRegion @ q @ ''.''),
                             Inr [FallbackRegion])
                       else (begun @ log_Printf
                                       (''Using default region from AWS config/environment: ''
                                          @ tempCfg_Region),
                             Inr [tempCfg_Region]))))"

fun saws_match_patterns ::
  "(string \<Rightarrow> string \<Rightarrow> string + bool) \<Rightarrow> string list \<Rightarrow> string \<Rightarrow> event list \<times> bool" where
  "saws_match_patterns Match [] accName = ([], False)"
| "saws_match_patterns Match (pattern # rest) accName =
     (case Match pattern accName of
        Inl e \<Rightarrow>
          (case saws_match_patterns Match rest accName of
             (evs, found) \<Rightarrow>
               (log_Printf
                  (''Warning: Invalid pattern '' @ q @ pattern @ q @ '' in selector: '' @ e
                     @ ''. Skipping pattern.'') @ evs, found))
      | Inr match \<Rightarrow>
          (if match then ([], True) else saws_match_patterns Match rest accName))"

text \<open>The outer loop carries \<open>targetAccountNames\<close> and the keys of \<open>matchedAccounts\<close>.\<close>

fun saws_match_accounts ::
  "(string \<Rightarrow> string \<Rightarrow> string + bool) \<Rightarrow> string list \<Rightarrow> string list
     \<Rightarrow> string list \<times> string list \<Rightarrow> event list \<times> string list \<times> string list" where
  "saws_match_accounts Match selectorPatterns [] (targetAccountNames, matchedAccounts) =
     ([], targetAccountNames, matchedAccounts)"
| "saws_match_accounts Match selectorPatterns (accName # rest)
       (targetAccountNames, matchedAccounts) =
     (case saws_match_patterns Match selectorPatterns accName of
        (evs, found) \<Rightarrow>
          (case saws_match_accounts Match selectorPatterns rest
                  (if found \<and> accName \<notin> set matchedAccounts
                   then (targetAccountNames @ [accName], accName # matchedAccounts)
                   else (targetAccountNames, matchedAccounts)) of
             (evs', st) \<Rightarrow> (evs @ evs', st)))"

definition saws_targetAccountNames ::
  "(string \<Rightarrow> string \<Rightarrow> string + bool) \<Rightarrow> (string \<times> string) list \<Rightarrow> bool \<Rightarrow> string
     \<Rightarrow> event list \<times> (int + string list)" where
  "saws_targetAccountNames Match accounts processAll selector =
     (let allAccountNamesSorted = sort_Strings (map_keys accounts);
          chosen =
            (if processAll
             then (log_Printf
                     (''Processing all '' @ nat_d (length allAccountNamesSorted)
                        @ '' accounts from config.''),
                   allAccountNamesSorted)
             else (case saws_match_accounts Match (Fields selector) allAccountNamesSorted
                          ([], []) of
                     (evs, targetAccountNames, matchedAccounts) \<Rightarrow>
                       (evs @ log_Printf
                                (''Selected '' @ nat_d (length targetAccountNames)
                                   @ '' accounts based on selector.''),
                        sort_Strings targetAccountNames)))
      in case chosen of
           (evs, targetAccountNames) \<Rightarrow>
             (if length targetAccountNames = 0
              then (if selector \<noteq> []
                    then (evs @ log_Printf
                                  (''Error: No accounts found in config matching the selector: ''
                                     @ dq @ selector @ dq), Inl 1)
                    else (evs @ log_Printf
                                  ''Error: No accounts selected for processing (and -a not used).'',
                          Inl 1))
              else (evs, Inr targetAccountNames)))"

definition saws_run_units ::
  "world \<Rightarrow> (string \<times> string) list \<Rightarrow> string \<Rightarrow> string \<Rightarrow> string \<Rightarrow> (string \<times> string) list
     \<Rightarrow> ((string \<times> string) \<times> event list \<times> nat) list" where
  "saws_run_units w accounts baseCfg_Region role command units =
     map (\<lambda>(i, (accountName, region)).
            ((accountName, region),
             processAccountRegion (sts_at w i) (run_at w i) (Environ w) (Getpid w)
               baseCfg_Region accounts accountName role command region))
         (enumerate 0 units)"

definition saws_finalVerdict :: "int \<Rightarrow> int \<Rightarrow> int \<times> event list" where
  "saws_finalVerdict finalSuccessCount totalExecutions =
     (if finalSuccessCount = totalExecutions
      then (0, log_Printf
                 (''All '' @ fmt_d finalSuccessCount
                    @ '' targeted executions (account/region pairs) processed successfully.''))
      else (1, log_Printf
                 (fmt_d finalSuccessCount @ '' out of '' @ fmt_d totalExecutions
                    @ '' targeted executions (account/region pairs) processed successfully. One or more failed. Please review logs above.'')))"

text \<open>\<open>accounts[name]\<close> where a missing key reads as the empty string.\<close>

definition account_id :: "(string \<times> string) list \<Rightarrow> string \<Rightarrow> string" where
  "account_id accounts name = (case map_of accounts name of None \<Rightarrow> [] | Some i \<Rightarrow> i)"

definition saws_commandMode ::
  "world \<Rightarrow> flags \<Rightarrow> (string \<times> string) list \<Rightarrow> event list \<Rightarrow> ending" where
  "saws_commandMode w f accounts evs =
     (if flag_r f = []
      then usage (evs @ log_Printf
                          ''Error: Role name (-r) is mandatory in Command Execution Mode.'')
      else if flag_c f = []
      then usage (evs @ log_Printf ''Error: AWS command (-c) is mandatory.'')
      else if flag_a f \<and> flag_s f \<noteq> []
      then usage (evs @ log_Printf ''Error: Cannot use both -a and -s.'')
      else if \<not> flag_a f \<and> flag_s f = []
      then usage (evs @ log_Printf ''Error: Must specify either -a or -s.'')
      else if \<not> LookPath_aws w
      then log_Fatalf evs
             (''Error: AWS CLI command ('' @ q @ ''aws'' @ q
                @ '') not found. Please install it and ensure it'' @ q
                @ ''s in your PATH for Command Execution Mode.'')
      else
        (case saws_targetRegions (flag_regions f) (ambient_config w) of
           (e1, Inl code) \<Rightarrow> os_Exit code (evs @ e1)
         | (e1, Inr targetRegions) \<Rightarrow>
             (case saws_targetAccountNames (filepath_Match w) accounts (flag_a f) (flag_s f) of
                (e2, Inl code) \<Rightarrow> os_Exit code (evs @ e1 @ e2)
              | (e2, Inr targetAccountNames) \<Rightarrow>
                  (case base_config w of
                     Inl e \<Rightarrow>
                       log_Fatalf (evs @ e1 @ e2)
                         (''Error loading base AWS configuration for profile '' @ q
                            @ BaseProfileForAssume @ q @ '': '' @ e)
                   | Inr baseCfg_Region \<Rightarrow>
                       (let totalExecutions =
                              int (length targetAccountNames) * int (length targetRegions);
                            plan =
                              log_Printf
                                (''Targeting '' @ nat_d (length targetAccountNames)
                                   @ '' accounts across '' @ nat_d (length targetRegions)
                                   @ '' regions: '' @ fmt_v targetRegions)
                              @ log_Printf
                                  (''Total executions planned: '' @ fmt_d totalExecutions)
                              @ concat (map (\<lambda>name.
                                   log_Printf
                                     ('' - Account: '' @ name @ '' ('' @ account_id accounts name
                                        @ '')'')) targetAccountNames);
                            results = saws_run_units w accounts baseCfg_Region (flag_r f)
                                        (flag_c f) (spawn_units targetAccountNames targetRegions);
                            finalSuccessCount = successfulExecutions results
                        in case saws_finalVerdict finalSuccessCount totalExecutions of
                             (code, e3) \<Rightarrow>
                               \<lparr>exit_code = code, wrote = evs @ e1 @ e2 @ plan @ e3,
                                workers = results\<rparr>)))))"

text \<open>The interactive set-up of \<open>-e\<close> is kept by its end alone; the lines logged by
  \<open>findConfigPath\<close> are not listed.\<close>

definition saws_main :: "world \<Rightarrow> flags \<Rightarrow> ending" where
  "saws_main w f =
     (case config_path w of
        Inl e \<Rightarrow>
          log_Fatalf []
            (''Configuration Error: '' @ e @ [CHR 0x0A] @ ''Please ensure '' @ q @ configFileName
               @ q @ '' exists in ~/'' @ awsConfigDir @ ''/ or ./, or use the -config flag.'')
      | Inr configPath \<Rightarrow>
          (case loadConfig w configPath of
             (evs, Inl e) \<Rightarrow> log_Fatalf evs (''Configuration Error: '' @ e)
           | (evs, Inr loadedConfig) \<Rightarrow>
               (if flag_h f then usage evs
                else if flag_e f
                then (if flag_r f \<noteq> []
                      then usage (evs @ log_Printf
                                          ''Error: The -r flag cannot be used with the environment setup mode (-e). Roles are selected interactively.'')
                      else
                        (let warn =
                               (if flag_c f \<noteq> []
                                then log_Printf
                                       ''Warning: -c flag ignored in environment setup mode (-e).''
                                else [])
                               @ (if flag_regions f \<noteq> []
                                  then log_Printf
                                         ''Warning: -regions flag ignored in environment setup mode (-e).''
                                  else [])
                               @ (if flag_a f
                                  then log_Printf
                                         ''Warning: -a flag ignored in environment setup mode (-e).''
                                  else [])
                               @ (if flag_s f \<noteq> []
                                  then log_Printf
                                         ''Warning: -s flag ignored in environment setup mode (-e).''
                                  else [])
                         in case interactive w of
                              None \<Rightarrow> os_Exit 0 (evs @ warn)
                            | Some e \<Rightarrow>
                                log_Fatalf (evs @ warn)
                                  (''Error during interactive setup: '' @ e)))
                else saws_commandMode w f (Accounts loadedConfig) evs)))"

section \<open>Concrete surroundings\<close>

text \<open>
  A matcher for concrete runs: on a pattern of literal bytes and \<open>*\<close> and a name without
  path separator, \<open>filepath.Match\<close> gives this answer and no error.
\<close>

fun glob_star :: "string \<Rightarrow> string \<Rightarrow> bool" where
  "glob_star [] name = (name = [])"
| "glob_star (p # ps) name =
     (if p = CHR ''*''
      then (glob_star ps name \<or> (case name of [] \<Rightarrow> False | c # cs \<Rightarrow> glob_star (p # ps) cs))
      else (case name of [] \<Rightarrow> False | c # cs \<Rightarrow> p = c \<and> glob_star ps cs))"

definition star_Match :: "string \<Rightarrow> string \<Rightarrow> string + bool" where
  "star_Match pattern name = Inr (glob_star pattern name)"

text \<open>A token service that grants, one that refuses, and a subprocess that prints a line
  and exits with status 0.\<close>

definition sts_grant :: sts_client where
  "sts_grant region input =
     Inr \<lparr>Credentials = Some \<lparr>AccessKeyId = Some ''ASIAKEY'', SecretAccessKey = Some ''secret'',
                               SessionToken = Some ''token'', Expiration = None\<rparr>\<rparr>"

definition sts_deny :: sts_client where
  "sts_deny region input = Inl ''AccessDenied''"

definition run_ok :: runner where
  "run_ok cmd = \<lparr>err = None, written = [(fd_stdout, ''ok'')], duration = ''1ms''\<rparr>"

definition config0 :: AppConfig where
  "config0 = \<lparr>Accounts = [(''a'', ''111111111111''), (''b'', ''222222222222'')],
              CommonRegions = [''eu-west-1''], Roles = []\<rparr>"

definition world0 :: world where
  "world0 = \<lparr>config_path = Inr ''saws-config.yaml'',
             ReadFile = (\<lambda>path. Inr ''accounts''),
             yaml_Unmarshal = (\<lambda>data. Inr config0),
             LookPath_aws = True,
             ambient_config = Inr ''eu-central-1'',
             base_config = Inr ''eu-west-1'',
             filepath_Match = star_Match,
             sts_at = (\<lambda>i. sts_grant),
             run_at = (\<lambda>i. run_ok),
             Environ = [''PATH=/usr/bin'', ''AWS_PROFILE=work''],
             Getpid = 4242,
             interactive = None,
             totalDuration = ''1s''\<rparr>"

definition flags0 :: flags where
  "flags0 = \<lparr>flag_r = ''Admin'', flag_s = ''a,b'', flag_config = [], flag_h = False,
             flag_region = [], flag_v = False, flag_c = ''aws s3 ls'', flag_regions = [],
             flag_a = False, flag_e = False, flag_ssm = False, flag_i = [], flag_ecs = False,
             flag_ecs_cluster = [], flag_ecs_task = [], flag_ecs_container = [],
             flag_ecs_command = []\<rparr>"

text \<open>A subprocess that reports whether a security token of the parent is in its
  environment.\<close>

definition run_leak :: runner where
  "run_leak cmd =
     \<lparr>err = None,
      written = [(fd_stdout, if ''AWS_SECURITY_TOKEN=parent'' \<in> set (Env cmd)
                             then ''leaked'' else ''clean'')],
      duration = ''1ms''\<rparr>"

text \<open>A subprocess that writes on both streams, standard error in between, and exits
  with status 0.\<close>

definition run_warn :: runner where
  "run_warn cmd =
     \<lparr>err = None,
      written = [(fd_stdout, ''ok''), (fd_stderr, ''warn''), (fd_stdout, ''!'')],
      duration = ''1ms''\<rparr>"

section \<open>Strings: facts\<close>

lemma cut_length: "length (if length n > k then take k n else n) \<le> k"
  by simp

lemma cut_take: "(if length n > k then take k n else n) = take k n"
  by simp

lemma Split_no_sep: "p \<in> set (Split s c) \<Longrightarrow> c \<notin> set p"
proof (induction s arbitrary: p)
  case Nil
  then show ?case by simp
next
  case (Cons x xs)
  show ?case
  proof (cases "x = c")
    case True
    with Cons show ?thesis by auto
  next
    case False
    with Cons show ?thesis by (cases "Split xs c") auto
  qed
qed

lemma Split_without_sep: "c \<notin> set s \<Longrightarrow> Split s c = [s]"
  by (induction s) auto

lemma trim_front_suffix: "suffix (trim_front sp n s) s"
proof (induction n arbitrary: s)
  case 0
  then show ?case by simp
next
  case (Suc n)
  have "suffix (trim_front sp n (drop (space_width sp s) s)) (drop (space_width sp s) s)"
    by (rule Suc.IH)
  then have "suffix (trim_front sp n (drop (space_width sp s) s)) s"
    by (rule suffix_order.trans) (rule suffix_drop)
  then show ?case by simp
qed

lemma set_trim_front: "set (trim_front sp n s) \<subseteq> set s"
  using trim_front_suffix [of sp n s] by (rule set_mono_suffix)

lemma set_TrimSpace: "set (TrimSpace s) \<subseteq> set s"
proof -
  have "set (TrimRightSpace t) \<subseteq> set t" for t
    using set_trim_front [of "map rev unicode_spaces" "length t" "rev t"]
    by (simp add: TrimRightSpace_def)
  moreover have "set (TrimLeftSpace s) \<subseteq> set s"
    by (simp add: TrimLeftSpace_def set_trim_front)
  ultimately show ?thesis
    unfolding TrimSpace_def by blast
qed

lemma space_width_ascii_space: "space_width unicode_spaces (CHR '' '' # cs) \<noteq> 0"
  by (simp add: space_width_def unicode_spaces_def)

lemma fields_from_no_space:
  "CHR '' '' \<notin> set cur \<Longrightarrow> p \<in> set (fields_from n cur s) \<Longrightarrow> p \<noteq> [] \<and> CHR '' '' \<notin> set p"
proof (induction n arbitrary: cur s)
  case 0
  then show ?case by (auto split: if_splits)
next
  case (Suc n)
  show ?case
  proof (cases s)
    case Nil
    with Suc.prems show ?thesis by (auto split: if_splits)
  next
    case (Cons c cs)
    show ?thesis
    proof (cases "space_width unicode_spaces s = 0")
      case True
      with Cons have "c \<noteq> CHR '' ''"
        using space_width_ascii_space [of cs] by auto
      with Suc.prems(1) have "CHR '' '' \<notin> set (c # cur)" by simp
      moreover from Suc.prems(2) Cons True have "p \<in> set (fields_from n (c # cur) cs)" by simp
      ultimately show ?thesis by (rule Suc.IH)
    next
      case False
      with Suc.prems(2) Cons
      have "p \<in> set (if cur = [] then [] else [rev cur])
              \<or> p \<in> set (fields_from n [] (drop (space_width unicode_spaces s) s))"
        by auto
      then show ?thesis
      proof
        assume "p \<in> set (if cur = [] then [] else [rev cur])"
        with Suc.prems(1) show ?thesis by (auto split: if_splits)
      next
        assume "p \<in> set (fields_from n [] (drop (space_width unicode_spaces s) s))"
        with Suc.IH [of "[]"] show ?thesis by simp
      qed
    qed
  qed
qed

lemma Fields_no_space:
  assumes "p \<in> set (Fields s)"
  shows "p \<noteq> [] \<and> CHR '' '' \<notin> set p"
proof -
  from assms have "p \<in> set (fields_from (Suc (length s)) [] s)"
    by (simp only: Fields_def)
  moreover have "CHR '' '' \<notin> set []" by simp
  ultimately show ?thesis
    using fields_from_no_space by blast
qed

lemma fields_from_unbroken:
  "\<forall>t \<in> set (suffixes s). space_width unicode_spaces t = 0 \<Longrightarrow> length s < n \<Longrightarrow>
     fields_from n cur s = (if cur = [] \<and> s = [] then [] else [rev cur @ s])"
proof (induction n arbitrary: cur s)
  case 0
  then show ?case by simp
next
  case (Suc n)
  show ?case
  proof (cases s)
    case Nil
    then show ?thesis by simp
  next
    case (Cons c cs)
    from Suc.prems(1) have here: "space_width unicode_spaces s = 0"
      by simp
    from Suc.prems(1) Cons have "\<forall>t \<in> set (suffixes cs). space_width unicode_spaces t = 0"
      by simp
    moreover from Suc.prems(2) Cons have "length cs < n" by simp
    ultimately have "fields_from n (c # cur) cs
                       = (if c # cur = [] \<and> cs = [] then [] else [rev (c # cur) @ cs])"
      by (rule Suc.IH)
    with here Cons show ?thesis by simp
  qed
qed

lemma Fields_unbroken:
  "\<forall>t \<in> set (suffixes s). space_width unicode_spaces t = 0 \<Longrightarrow>
     Fields s = (if s = [] then [] else [s])"
  unfolding Fields_def using fields_from_unbroken [of s "Suc (length s)" "[]"] by simp

section \<open>Region resolution: facts\<close>

lemma cmd_targetRegions_explicit:
  "TrimSpace rs \<noteq> [] \<Longrightarrow>
     snd (cmd_targetRegions v rs amb) =
       (if filter (\<lambda>t. t \<noteq> []) (map TrimSpace (Split (TrimSpace rs) (CHR '',''))) = [] then Inl 1
        else Inr (filter (\<lambda>t. t \<noteq> []) (map TrimSpace (Split (TrimSpace rs) (CHR '','')))))"
  by (simp add: cmd_targetRegions_def Let_def)

lemma cmd_targetRegions_ambient:
  "TrimSpace rs = [] \<Longrightarrow>
     snd (cmd_targetRegions v rs amb) =
       (case amb of Inl e \<Rightarrow> Inr [FallbackRegion]
        | Inr reg \<Rightarrow> if reg = [] then Inr [FallbackRegion] else Inr [reg])"
  by (simp add: cmd_targetRegions_def Let_def split: sum.splits)

lemma saws_targetRegions_explicit:
  "TrimSpace rs \<noteq> [] \<Longrightarrow>
     snd (saws_targetRegions rs amb) =
       (if filter (\<lambda>t. t \<noteq> []) (map TrimSpace (Split (TrimSpace rs) (CHR '',''))) = [] then Inl 1
        else Inr (filter (\<lambda>t. t \<noteq> []) (map TrimSpace (Split (TrimSpace rs) (CHR '','')))))"
  by (simp add: saws_targetRegions_def Let_def)

lemma saws_targetRegions_ambient:
  "TrimSpace rs = [] \<Longrightarrow>
     snd (saws_targetRegions rs amb) =
       (case amb of Inl e \<Rightarrow> Inr [FallbackRegion]
        | Inr reg \<Rightarrow> if reg = [] then Inr [FallbackRegion] else Inr [reg])"
  by (simp add: saws_targetRegions_def Let_def split: sum.splits)

lemma targetRegions_exit_1:
  "cmd_targetRegions v rs amb = (e, Inl c) \<Longrightarrow> c = 1"
  "saws_targetRegions rs amb = (e', Inl c') \<Longrightarrow> c' = 1"
  by (auto simp: cmd_targetRegions_def saws_targetRegions_def Let_def split: if_splits sum.splits)

lemma targetRegions_nonempty:
  "cmd_targetRegions v rs amb = (e, Inr R) \<Longrightarrow> R \<noteq> []"
  "saws_targetRegions rs amb = (e', Inr R') \<Longrightarrow> R' \<noteq> []"
  by (auto simp: cmd_targetRegions_def saws_targetRegions_def Let_def split: if_splits sum.splits)

section \<open>Account selection: facts\<close>

lemma cmd_match_patterns_found:
  "snd (cmd_match_patterns v M ps n) \<longleftrightarrow> (\<exists>p \<in> set ps. M p n = Inr True)"
  by (induction ps) (auto split: sum.splits prod.splits)

lemma saws_match_patterns_found:
  "snd (saws_match_patterns M ps n) \<longleftrightarrow> (\<exists>p \<in> set ps. M p n = Inr True)"
  by (induction ps) (auto split: sum.splits prod.splits)

lemma cmd_match_accounts_set:
  "set (snd (cmd_match_accounts v M ps names m)) =
     set m \<union> {n \<in> set names. \<exists>p \<in> set ps. M p n = Inr True}"
proof (induction names arbitrary: m)
  case Nil
  then show ?case by simp
next
  case (Cons n names)
  obtain evs found where mp: "cmd_match_patterns v M ps n = (evs, found)"
    by (cases "cmd_match_patterns v M ps n")
  then have found: "found \<longleftrightarrow> (\<exists>p \<in> set ps. M p n = Inr True)"
    using cmd_match_patterns_found [of v M ps n] by simp
  let ?m = "if found then List.insert n m else m"
  obtain evs' m' where ma: "cmd_match_accounts v M ps names ?m = (evs', m')"
    by (cases "cmd_match_accounts v M ps names ?m")
  have "set m' = set ?m \<union> {n \<in> set names. \<exists>p \<in> set ps. M p n = Inr True}"
    using Cons.IH [of ?m] ma by simp
  with mp ma found show ?case by auto
qed

lemma cmd_match_accounts_distinct:
  "distinct m \<Longrightarrow> distinct (snd (cmd_match_accounts v M ps names m))"
proof (induction names arbitrary: m)
  case Nil
  then show ?case by simp
next
  case (Cons n names)
  obtain evs found where mp: "cmd_match_patterns v M ps n = (evs, found)"
    by (cases "cmd_match_patterns v M ps n")
  let ?m = "if found then List.insert n m else m"
  obtain evs' m' where ma: "cmd_match_accounts v M ps names ?m = (evs', m')"
    by (cases "cmd_match_accounts v M ps names ?m")
  from Cons.prems have "distinct ?m" by simp
  then have "distinct (snd (cmd_match_accounts v M ps names ?m))" by (rule Cons.IH)
  with mp ma show ?case by simp
qed

lemma saws_match_accounts_inv:
  "set t = set m \<Longrightarrow> distinct t \<Longrightarrow>
     set (fst (snd (saws_match_accounts M ps names (t, m)))) =
       set t \<union> {n \<in> set names. \<exists>p \<in> set ps. M p n = Inr True}
     \<and> distinct (fst (snd (saws_match_accounts M ps names (t, m))))"
proof (induction names arbitrary: t m)
  case Nil
  then show ?case by simp
next
  case (Cons n names)
  obtain evs found where mp: "saws_match_patterns M ps n = (evs, found)"
    by (cases "saws_match_patterns M ps n")
  then have found: "found \<longleftrightarrow> (\<exists>p \<in> set ps. M p n = Inr True)"
    using saws_match_patterns_found [of M ps n] by simp
  let ?st = "if found \<and> n \<notin> set m then (t @ [n], n # m) else (t, m)"
  obtain evs' t' m' where ma: "saws_match_accounts M ps names ?st = (evs', t', m')"
    by (cases "saws_match_accounts M ps names ?st") auto
  have step: "saws_match_accounts M ps (n # names) (t, m) = (evs @ evs', t', m')"
    using mp ma by simp
  show ?case
  proof (cases "found \<and> n \<notin> set m")
    case True
    with Cons.prems have "set (t @ [n]) = set (n # m)" "distinct (t @ [n])" by auto
    from Cons.IH [OF this] ma True
    have "set t' = set (t @ [n]) \<union> {n \<in> set names. \<exists>p \<in> set ps. M p n = Inr True}"
      and "distinct t'" by simp_all
    with step True found show ?thesis by auto
  next
    case False
    from Cons.IH [OF Cons.prems] ma False
    have "set t' = set t \<union> {n \<in> set names. \<exists>p \<in> set ps. M p n = Inr True}"
      and "distinct t'" by simp_all
    with step False found Cons.prems(1) show ?thesis by auto
  qed
qed

lemma sort_Strings_props:
  "set (sort_Strings xs) = set xs" "sorted (sort_Strings xs)"
  "distinct (sort_Strings xs) = distinct xs" "length (sort_Strings xs) = length xs"
  by (simp_all add: sort_Strings_def)

lemma map_keys_props: "set (map_keys m) = fst ` set m" "distinct (map_keys m)"
  by (simp_all add: map_keys_def)

lemma sorted_distinct_is_chosen:
  "sorted xs \<Longrightarrow> distinct xs \<Longrightarrow> set xs = S \<Longrightarrow> xs = sorted_list_of_set S"
  by (metis sorted_list_of_set.idem_if_sorted_distinct)

section \<open>The session name of the assumed role\<close>

lemma AssumeRole_safeRolePart_clean:
  "CHR ''/'' \<notin> set (AssumeRole_safeRolePart r)"
  "CHR '' '' \<notin> set (AssumeRole_safeRolePart r)"
  "length (AssumeRole_safeRolePart r) \<le> 30"
  by (auto simp: AssumeRole_safeRolePart_def Let_def ReplaceAll_def dest!: in_set_takeD)

lemma AssumeRole_sessionName_bounded:
  "length (AssumeRole_sessionName tag r pid) \<le> 64"
  "AssumeRole_sessionName tag r pid =
     take 64 (tag @ ''-'' @ AssumeRole_safeRolePart r @ ''-'' @ fmt_d pid)"
  unfolding AssumeRole_sessionName_def Let_def by (rule cut_length, rule cut_take)

lemma assumeRole_sessionName_bounded:
  "length (assumeRole_sessionName tag r pid) \<le> 64"
  "assumeRole_sessionName tag r pid =
     take 64 (tag @ ''-'' @ ReplaceAll r (CHR ''/'') (CHR ''-'') @ ''-'' @ fmt_d pid)"
  unfolding assumeRole_sessionName_def Let_def by (rule cut_length, rule cut_take)

lemma fmt_d_4242: "fmt_d 4242 = ''4242''"
  by (simp add: fmt_d_def nat_dec.simps digit_char_def)

text \<open>
  C9. The claim: the session name joins the session tag, the role name with path
  separators and spaces replaced, and the process id, cut to 64 bytes. \<open>pkg.AssumeRole\<close>
  does so (\<open>AssumeRole_safeRolePart_clean\<close>, \<open>AssumeRole_sessionName_bounded\<close>). \<open>assumeRole\<close>
  of \<open>saws.go\<close> replaces the path separator only: for the role name \<open>my role\<close> it sends a
  session name that still holds the space, where \<open>pkg.AssumeRole\<close> sends an underscore.
\<close>

theorem assumeRole_keeps_space:
  "assumeRole_sessionName ''CmdExecSession'' ''my role'' 4242 = ''CmdExecSession-my role-4242''
   \<and> AssumeRole_sessionName ''CmdExecSess'' ''my role'' 4242 = ''CmdExecSess-my_role-4242''"
  by (simp add: assumeRole_sessionName_def AssumeRole_sessionName_def AssumeRole_safeRolePart_def
        ReplaceAll_def fmt_d_4242)

section \<open>The environment of the subprocess\<close>

lemmas Env_defs =
  ProcessAccountRegion_Env_def processAccountRegion_Env_def inject_credentials_def
  ProcessAccountRegion_cleanEnv_def processAccountRegion_cleanEnv_def

lemma ProcessAccountRegion_Env_injected:
  "filter (prefix ''AWS_ACCESS_KEY_ID='') (ProcessAccountRegion_Env env k s t r)
     = [''AWS_ACCESS_KEY_ID='' @ k]"
  "filter (prefix ''AWS_SECRET_ACCESS_KEY='') (ProcessAccountRegion_Env env k s t r)
     = [''AWS_SECRET_ACCESS_KEY='' @ s]"
  "filter (prefix ''AWS_SESSION_TOKEN='') (ProcessAccountRegion_Env env k s t r)
     = [''AWS_SESSION_TOKEN='' @ t]"
  "filter (prefix ''AWS_REGION='') (ProcessAccountRegion_Env env k s t r)
     = [''AWS_REGION='' @ r]"
  "filter (prefix ''AWS_DEFAULT_REGION='') (ProcessAccountRegion_Env env k s t r)
     = [''AWS_DEFAULT_REGION='' @ r]"
  by (auto simp: Env_defs filter_empty_conv)

lemma ProcessAccountRegion_Env_stripped:
  "filter (prefix ''AWS_SECURITY_TOKEN='') (ProcessAccountRegion_Env env k s t r) = []"
  "filter (prefix ''AWS_PROFILE='') (ProcessAccountRegion_Env env k s t r) = []"
  "filter (prefix ''AWS_CONFIG_FILE='') (ProcessAccountRegion_Env env k s t r) = []"
  "filter (prefix ''AWS_SHARED_CREDENTIALS_FILE='') (ProcessAccountRegion_Env env k s t r) = []"
  by (auto simp: Env_defs filter_empty_conv)

lemma processAccountRegion_Env_injected:
  "filter (prefix ''AWS_ACCESS_KEY_ID='') (processAccountRegion_Env env k s t r)
     = [''AWS_ACCESS_KEY_ID='' @ k]"
  "filter (prefix ''AWS_SECRET_ACCESS_KEY='') (processAccountRegion_Env env k s t r)
     = [''AWS_SECRET_ACCESS_KEY='' @ s]"
  "filter (prefix ''AWS_SESSION_TOKEN='') (processAccountRegion_Env env k s t r)
     = [''AWS_SESSION_TOKEN='' @ t]"
  "filter (prefix ''AWS_REGION='') (processAccountRegion_Env env k s t r)
     = [''AWS_REGION='' @ r]"
  "filter (prefix ''AWS_DEFAULT_REGION='') (processAccountRegion_Env env k s t r)
     = [''AWS_DEFAULT_REGION='' @ r]"
  by (auto simp: Env_defs filter_empty_conv)

lemma processAccountRegion_Env_stripped:
  "filter (prefix ''AWS_PROFILE='') (processAccountRegion_Env env k s t r) = []"
  "filter (prefix ''AWS_CONFIG_FILE='') (processAccountRegion_Env env k s t r) = []"
  "filter (prefix ''AWS_SHARED_CREDENTIALS_FILE='') (processAccountRegion_Env env k s t r) = []"
  by (auto simp: Env_defs filter_empty_conv)

text \<open>What is neither stripped nor injected is handed on as it was, in its order.\<close>

lemma ProcessAccountRegion_Env_rest:
  "take (length (ProcessAccountRegion_cleanEnv env)) (ProcessAccountRegion_Env env k s t r)
     = ProcessAccountRegion_cleanEnv env"
  "length (ProcessAccountRegion_Env env k s t r) = length (ProcessAccountRegion_cleanEnv env) + 5"
  by (simp_all add: ProcessAccountRegion_Env_def inject_credentials_def)

lemma sts_grant_assumeRole:
  "assumeRole sts_grant pid br acc role tag =
     Inr \<lparr>AccessKeyId = Some ''ASIAKEY'', SecretAccessKey = Some ''secret'',
          SessionToken = Some ''token'', Expiration = None\<rparr>"
  by (simp add: assumeRole_def sts_grant_def Let_def)

lemma sts_grant_AssumeRole:
  "AssumeRole False sts_grant pid br acc role tag =
     ([], Inr \<lparr>AccessKeyId = Some ''ASIAKEY'', SecretAccessKey = Some ''secret'',
               SessionToken = Some ''token'', Expiration = None\<rparr>)"
  by (simp add: AssumeRole_def sts_grant_def Let_def LogVerbosef_def)

lemma TrimSpace_words:
  "TrimSpace ''leaked'' = ''leaked''" "TrimSpace ''clean'' = ''clean''" "TrimSpace [] = []"
  "TrimSpace ''ok'' = ''ok''"
  by (simp_all add: TrimSpace_def TrimLeftSpace_def TrimRightSpace_def space_width_def
        unicode_spaces_def)

text \<open>
  C3. The claim: the environment of a unit's subprocess holds one entry for each of the
  access key, the secret key, the session token, the region and the default region, and
  none of the parent's entries for these nor for the security token, the profile, the
  configuration file and the shared credentials file. \<open>saws.ProcessAccountRegion\<close> does
  so (\<open>ProcessAccountRegion_Env_injected\<close>, \<open>ProcessAccountRegion_Env_stripped\<close>).
  \<open>processAccountRegion\<close> of \<open>saws.go\<close> strips eight of the nine names and hands the
  parent's \<open>AWS_SECURITY_TOKEN\<close> on: with that entry in the parent's environment, a
  subprocess that looks for it finds it under \<open>saws.go\<close> and not under \<open>cmd/saws\<close>.
\<close>

theorem saws_go_hands_on_security_token:
  "printed (fst (processAccountRegion sts_grant run_leak
                   [''PATH=/usr/bin'', ''AWS_SECURITY_TOKEN=parent''] 4242 ''eu-west-1''
                   (Accounts config0) ''a'' ''Admin'' ''aws s3 ls'' ''eu-west-1''))
     = [''--- Command Output (Account: a, Region: eu-west-1, Exit Code: 0, Duration: 1ms) ---'',
        ''leaked'']
   \<and> printed (fst (ProcessAccountRegion False sts_grant run_leak
                     [''PATH=/usr/bin'', ''AWS_SECURITY_TOKEN=parent''] 4242 ''eu-west-1''
                     config0 ''a'' ''Admin'' ''aws s3 ls'' ''eu-west-1''))
     = [''--- Result (Account: a, Region: eu-west-1, Status: SUCCESS, Exit Code: 0, Duration: 1ms) ---'',
        ''[STDOUT]'', ''clean'', ''--- End Result ---'']"
proof -
  show ?thesis
    by (simp add: processAccountRegion_def ProcessAccountRegion_def config0_def sts_grant_AssumeRole
          sts_grant_assumeRole run_leak_def processAccountRegion_Cmd_def
          ProcessAccountRegion_Cmd_def Env_defs exitCode_of_def status_of_def printed_def
          buffer_String_def Command_Output_header_def Result_block_def Result_header_def
          TrimSpace_words fmt_d_def nat_dec.simps digit_char_def)
qed

section \<open>Region resolution\<close>

lemma TrimSpace_regions:
  "TrimSpace '' eu-west-1, ,us-east-1 '' = ''eu-west-1, ,us-east-1''"
  "TrimSpace ''eu-west-1'' = ''eu-west-1''" "TrimSpace '' '' = []"
  "TrimSpace ''us-east-1'' = ''us-east-1''" "TrimSpace '','' = '',''"
  "TrimSpace ''   '' = []"
  by (simp_all add: TrimSpace_def TrimLeftSpace_def TrimRightSpace_def space_width_def
        unicode_spaces_def)

text \<open>
  C7. In both programs region resolution takes one of three ways. When \<open>-regions\<close> is not
  blank, the trimmed string is split at commas, each piece trimmed and the empty ones
  dropped; the list is used, and the run ends with status 1 when nothing is left; the
  ambient configuration has no part in the result. When \<open>-regions\<close> is blank, the region
  of the ambient configuration is the one target if it was loaded and is not empty;
  in every other case the one target is \<open>eu-west-1\<close>.
\<close>

theorem region_resolution_tiers:
  "(TrimSpace rs \<noteq> [] \<longrightarrow>
      snd (cmd_targetRegions v rs amb) =
        (if filter (\<lambda>t. t \<noteq> []) (map TrimSpace (Split (TrimSpace rs) (CHR '',''))) = []
         then Inl 1
         else Inr (filter (\<lambda>t. t \<noteq> []) (map TrimSpace (Split (TrimSpace rs) (CHR '','')))))
      \<and> snd (saws_targetRegions rs amb) = snd (cmd_targetRegions v rs amb)
      \<and> snd (cmd_targetRegions v rs amb') = snd (cmd_targetRegions v rs amb))
   \<and> (TrimSpace rs = [] \<and> reg \<noteq> [] \<longrightarrow>
        snd (cmd_targetRegions v rs (Inr reg)) = Inr [reg]
        \<and> snd (saws_targetRegions rs (Inr reg)) = Inr [reg])
   \<and> (TrimSpace rs = [] \<longrightarrow>
        snd (cmd_targetRegions v rs (Inl e)) = Inr [''eu-west-1'']
        \<and> snd (cmd_targetRegions v rs (Inr [])) = Inr [''eu-west-1'']
        \<and> snd (saws_targetRegions rs (Inl e)) = Inr [''eu-west-1'']
        \<and> snd (saws_targetRegions rs (Inr [])) = Inr [''eu-west-1''])"
  by (simp add: cmd_targetRegions_explicit saws_targetRegions_explicit
        cmd_targetRegions_ambient saws_targetRegions_ambient FallbackRegion_def)

theorem region_resolution_tiers_witness:
  "snd (cmd_targetRegions False '' eu-west-1, ,us-east-1 '' (Inl ''no config''))
     = Inr [''eu-west-1'', ''us-east-1'']
   \<and> snd (saws_targetRegions '' eu-west-1, ,us-east-1 '' (Inl ''no config''))
     = Inr [''eu-west-1'', ''us-east-1'']
   \<and> snd (cmd_targetRegions False '','' (Inr ''eu-central-1'')) = Inl 1
   \<and> snd (cmd_targetRegions False ''   '' (Inr ''eu-central-1'')) = Inr [''eu-central-1'']
   \<and> snd (saws_targetRegions ''   '' (Inr ''eu-central-1'')) = Inr [''eu-central-1'']
   \<and> snd (cmd_targetRegions False ''   '' (Inl ''no config'')) = Inr [''eu-west-1'']
   \<and> snd (saws_targetRegions ''   '' (Inr [])) = Inr [''eu-west-1'']"
proof -
  have given: "TrimSpace '' eu-west-1, ,us-east-1 '' \<noteq> []" "TrimSpace '','' \<noteq> []"
    by (simp_all add: TrimSpace_regions)
  have blank: "TrimSpace ''   '' = []" "''eu-central-1'' \<noteq> []"
    by (simp_all add: TrimSpace_regions)
  note two = region_resolution_tiers [of "'' eu-west-1, ,us-east-1 ''" False "Inl ''no config''"
               "Inl ''no config''" "''eu-central-1''" "''no config''"]
  note none = region_resolution_tiers [of "'',''" False "Inr ''eu-central-1''"
                "Inr ''eu-central-1''" "''eu-central-1''" "''no config''"]
  note amb = region_resolution_tiers [of "''   ''" False "Inl ''no config''"
               "Inl ''no config''" "''eu-central-1''" "''no config''"]
  from two given(1)
  have 1: "snd (cmd_targetRegions False '' eu-west-1, ,us-east-1 '' (Inl ''no config''))
             = Inr [''eu-west-1'', ''us-east-1'']"
    by (simp add: TrimSpace_regions)
  from two given(1) 1
  have 2: "snd (saws_targetRegions '' eu-west-1, ,us-east-1 '' (Inl ''no config''))
             = Inr [''eu-west-1'', ''us-east-1'']"
    by simp
  from none given(2)
  have 3: "snd (cmd_targetRegions False '','' (Inr ''eu-central-1'')) = Inl 1"
    by (simp add: TrimSpace_regions TrimSpace_words)
  from amb blank
  have 4: "snd (cmd_targetRegions False ''   '' (Inr ''eu-central-1'')) = Inr [''eu-central-1'']"
          "snd (saws_targetRegions ''   '' (Inr ''eu-central-1'')) = Inr [''eu-central-1'']"
          "snd (cmd_targetRegions False ''   '' (Inl ''no config'')) = Inr [''eu-west-1'']"
          "snd (saws_targetRegions ''   '' (Inr [])) = Inr [''eu-west-1'']"
    by blast+
  from 1 2 3 4 show ?thesis by blast
qed

section \<open>Fields: splitting at white space\<close>

text \<open>The shape of the encodings: the first byte of each is one of ten bytes, no later
  byte is, and the first byte gives the length.\<close>

lemma unicode_spaces_shape:
  "\<forall>x \<in> set unicode_spaces.
     x \<noteq> []
     \<and> hd x \<in> {CHR 0x09, CHR 0x0A, CHR 0x0B, CHR 0x0C, CHR 0x0D, CHR 0x20,
                 CHR 0xC2, CHR 0xE1, CHR 0xE2, CHR 0xE3}
     \<and> (\<forall>c \<in> set (tl x). c \<notin> {CHR 0x09, CHR 0x0A, CHR 0x0B, CHR 0x0C, CHR 0x0D, CHR 0x20,
                                  CHR 0xC2, CHR 0xE1, CHR 0xE2, CHR 0xE3})
     \<and> length x = (if hd x = CHR 0xC2 then 2
                   else if hd x \<in> {CHR 0xE1, CHR 0xE2, CHR 0xE3} then 3 else 1)"
  by (simp add: unicode_spaces_def)

lemma space_found:
  assumes "find (\<lambda>x. prefix x s) unicode_spaces = Some y"
  shows "y \<in> set unicode_spaces \<and> prefix y s"
  using assms by (auto simp: find_Some_iff)

lemma space_width_le: "space_width unicode_spaces s \<le> length s"
proof (cases "find (\<lambda>x. prefix x s) unicode_spaces")
  case None
  then show ?thesis by (simp add: space_width_def)
next
  case (Some y)
  then have "prefix y s" using space_found by blast
  then have "length y \<le> length s" by (rule prefix_length_le)
  with Some show ?thesis by (simp add: space_width_def)
qed

lemma space_width_at_space:
  assumes "w \<in> set unicode_spaces"
  shows "space_width unicode_spaces (w @ u) = length w"
proof -
  from assms have "\<exists>x \<in> set unicode_spaces. prefix x (w @ u)"
    by (intro bexI [of _ w]) simp_all
  then obtain y where y: "find (\<lambda>x. prefix x (w @ u)) unicode_spaces = Some y"
    by (cases "find (\<lambda>x. prefix x (w @ u)) unicode_spaces") (auto simp: find_None_iff)
  then have yU: "y \<in> set unicode_spaces" and py: "prefix y (w @ u)"
    using space_found by blast+
  from yU assms unicode_spaces_shape have ne: "y \<noteq> []" "w \<noteq> []" by blast+
  with py have "hd y = hd w" by (cases y; cases w) auto
  with yU assms unicode_spaces_shape have "length y = length w" by (metis (no_types, lifting))
  with y show ?thesis by (simp add: space_width_def)
qed

lemma space_prefix_inside:
  assumes "x \<in> set unicode_spaces" and "w \<in> set unicode_spaces" and "t \<noteq> []"
    and "prefix x (t @ w @ u)"
  shows "prefix x t"
proof (rule ccontr)
  assume no: "\<not> prefix x t"
  with assms(4) obtain us where x: "x = t @ us" and us: "prefix us (w @ u)"
    by (auto simp: prefix_append)
  from no x have "us \<noteq> []" by auto
  moreover from assms(2) unicode_spaces_shape have "w \<noteq> []" by blast
  ultimately have "hd us = hd w" using us by (cases us; cases w) auto
  with assms(2) unicode_spaces_shape
  have lead: "hd us \<in> {CHR 0x09, CHR 0x0A, CHR 0x0B, CHR 0x0C, CHR 0x0D, CHR 0x20,
                        CHR 0xC2, CHR 0xE1, CHR 0xE2, CHR 0xE3}"
    by (metis (no_types, lifting))
  from x assms(3) \<open>us \<noteq> []\<close> have "hd us \<in> set (tl x)" by (cases t; cases us) auto
  with assms(1) unicode_spaces_shape lead show False by blast
qed

lemma space_width_inside:
  assumes "w \<in> set unicode_spaces" and "t \<noteq> []"
  shows "space_width unicode_spaces (t @ w @ u) = space_width unicode_spaces t"
proof -
  have "find (\<lambda>x. prefix x (t @ w @ u)) unicode_spaces = find (\<lambda>x. prefix x t) unicode_spaces"
  proof (rule find_cong [OF refl])
    fix x
    assume "x \<in> set unicode_spaces"
    with assms show "prefix x (t @ w @ u) = prefix x t"
      using space_prefix_inside [of x w t u] by (auto simp: prefix_append)
  qed
  then show ?thesis by (simp add: space_width_def)
qed

text \<open>Fuel beyond the length of the string does not change the fields.\<close>

lemma fields_from_fuel:
  "length s < n \<Longrightarrow> length s < m \<Longrightarrow> fields_from n cur s = fields_from m cur s"
proof (induction n arbitrary: m cur s)
  case 0
  then show ?case by simp
next
  case (Suc n)
  from Suc.prems(2) obtain m' where m: "m = Suc m'" by (cases m) auto
  show ?case
  proof (cases s)
    case Nil
    with m show ?thesis by simp
  next
    case (Cons c cs)
    show ?thesis
    proof (cases "space_width unicode_spaces s = 0")
      case True
      from Suc.prems Cons m have "length cs < n" "length cs < m'" by auto
      then have "fields_from n (c # cur) cs = fields_from m' (c # cur) cs" by (rule Suc.IH)
      with True Cons m show ?thesis by simp
    next
      case False
      then have "length (drop (space_width unicode_spaces s) s) < length s"
        using Cons by auto
      with Suc.prems m
      have "length (drop (space_width unicode_spaces s) s) < n"
        "length (drop (space_width unicode_spaces s) s) < m'" by auto
      then have "fields_from n [] (drop (space_width unicode_spaces s) s)
                   = fields_from m' [] (drop (space_width unicode_spaces s) s)"
        by (rule Suc.IH)
      with False Cons m show ?thesis by simp
    qed
  qed
qed

lemma fields_from_split:
  assumes "w \<in> set unicode_spaces"
  shows "length (s @ w @ s') < n \<Longrightarrow>
           fields_from n cur (s @ w @ s')
             = fields_from (Suc (length s)) cur s @ fields_from (Suc (length s')) [] s'"
proof (induction n arbitrary: cur s)
  case 0
  then show ?case by simp
next
  case (Suc n)
  from assms unicode_spaces_shape have wne: "w \<noteq> []" by blast
  show ?case
  proof (cases s)
    case Nil
    from wne obtain c cs where wc: "w @ s' = c # cs" by (cases w) auto
    have width: "space_width unicode_spaces (w @ s') = length w"
      using assms by (rule space_width_at_space)
    from Suc.prems Nil wne have "length s' < n" by (cases w) simp_all
    then have "fields_from n [] s' = fields_from (Suc (length s')) [] s'"
      by (intro fields_from_fuel) simp_all
    moreover have "fields_from (Suc n) cur (w @ s')
                     = (if cur = [] then [] else [rev cur]) @ fields_from n [] s'"
    proof -
      from wc width have wd: "space_width unicode_spaces (c # cs) = length w" by simp
      from wc have dr: "drop (length w) (c # cs) = s'" by (metis append_eq_conv_conj)
      from wd wne
      have "fields_from (Suc n) cur (c # cs)
              = (if cur = [] then [] else [rev cur])
                  @ fields_from n [] (drop (length w) (c # cs))"
        by simp
      with dr wc show ?thesis by simp
    qed
    ultimately show ?thesis using Nil by simp
  next
    case (Cons c cs)
    have width: "space_width unicode_spaces (s @ w @ s') = space_width unicode_spaces s"
      using assms Cons by (intro space_width_inside) simp_all
    show ?thesis
    proof (cases "space_width unicode_spaces s = 0")
      case True
      from Suc.prems Cons have "length (cs @ w @ s') < n" by simp
      then have "fields_from n (c # cur) (cs @ w @ s')
                   = fields_from (Suc (length cs)) (c # cur) cs
                       @ fields_from (Suc (length s')) [] s'"
        by (rule Suc.IH)
      moreover have "fields_from (Suc n) cur (s @ w @ s')
                       = fields_from n (c # cur) (cs @ w @ s')"
        using True width Cons by simp
      moreover have "fields_from (Suc (length s)) cur s
                       = fields_from (Suc (length cs)) (c # cur) cs"
        using True Cons by simp
      ultimately show ?thesis by simp
    next
      case False
      let ?k = "space_width unicode_spaces s"
      have k: "?k \<le> length s" by (rule space_width_le)
      then have dropk: "drop ?k (s @ w @ s') = drop ?k s @ w @ s'" by simp
      from False k Cons have shorter: "length (drop ?k s) < length s" by auto
      with Suc.prems have "length (drop ?k s @ w @ s') < n" by simp
      then have "fields_from n [] (drop ?k s @ w @ s')
                   = fields_from (Suc (length (drop ?k s))) [] (drop ?k s)
                       @ fields_from (Suc (length s')) [] s'"
        by (rule Suc.IH)
      moreover have "fields_from (Suc n) cur (s @ w @ s')
                       = (if cur = [] then [] else [rev cur])
                           @ fields_from n [] (drop ?k s @ w @ s')"
        using False width Cons dropk by simp
      moreover have "fields_from (Suc (length s)) cur s
                       = (if cur = [] then [] else [rev cur])
                           @ fields_from (length s) [] (drop ?k s)"
        using False Cons by simp
      moreover have "fields_from (length s) [] (drop ?k s)
                       = fields_from (Suc (length (drop ?k s))) [] (drop ?k s)"
        using shorter by (intro fields_from_fuel) simp_all
      ultimately show ?thesis by simp
    qed
  qed
qed

lemma Fields_split:
  "w \<in> set unicode_spaces \<Longrightarrow> Fields (s @ w @ s') = Fields s @ Fields s'"
  unfolding Fields_def by (rule fields_from_split) simp_all

section \<open>The patterns of the selector\<close>

lemma Split_append_sep: "Split (s @ c # s') c = Split s c @ Split s' c"
proof (induction s)
  case Nil
  then show ?case by simp
next
  case (Cons x xs)
  have "Split xs c \<noteq> []" by (cases xs) (auto split: list.splits)
  with Cons show ?case by (auto split: list.splits)
qed

lemma cmd_selectorPatterns_clean:
  assumes "p \<in> set (cmd_selectorPatterns s)"
  shows "p \<noteq> [] \<and> CHR '','' \<notin> set p"
proof -
  from assms obtain piece where piece: "piece \<in> set (Split s (CHR '',''))"
    and p: "p = TrimSpace piece" and ne: "p \<noteq> []"
    by (auto simp: cmd_selectorPatterns_def)
  from piece have "CHR '','' \<notin> set piece" by (rule Split_no_sep)
  with p set_TrimSpace [of piece] have "CHR '','' \<notin> set p" by blast
  with ne show ?thesis by simp
qed

lemma cmd_selectorPatterns_no_comma:
  "CHR '','' \<notin> set s \<Longrightarrow>
     cmd_selectorPatterns s = (if TrimSpace s = [] then [] else [TrimSpace s])"
  by (simp add: cmd_selectorPatterns_def Split_without_sep)

lemma cmd_selectorPatterns_comma:
  "cmd_selectorPatterns (s @ '','' @ s') = cmd_selectorPatterns s @ cmd_selectorPatterns s'"
  by (simp add: cmd_selectorPatterns_def Split_append_sep)

text \<open>
  C5, as stated, fails in both programs: \<open>main\<close> of \<open>cmd/saws\<close> splits the selector at
  commas only, so \<open>a b\<close> is the one pattern \<open>a b\<close>; \<open>main\<close> of \<open>saws.go\<close> splits it at
  white space only, so \<open>a,b\<close> is the one pattern \<open>a,b\<close>.
\<close>

theorem selector_split_counterexample:
  "cmd_selectorPatterns ''a b'' = [''a b''] \<and> Fields ''a,b'' = [''a,b'']"
  by (simp add: cmd_selectorPatterns_def Fields_def TrimSpace_def TrimLeftSpace_def
        TrimRightSpace_def space_width_def unicode_spaces_def)

text \<open>
  C5, amended. \<open>main\<close> of \<open>cmd/saws\<close> splits the selector at commas, trims each piece and
  drops the empty ones: no pattern is empty or holds a comma, the patterns of
  \<open>s,s'\<close> are those of \<open>s\<close> followed by those of \<open>s'\<close>, and a selector without comma
  is one pattern at most, white space inside it included. \<open>main\<close> of \<open>saws.go\<close> splits
  the selector at white space: no pattern is empty or holds a space, the patterns of
  \<open>s\<close>, a white-space rune and \<open>s'\<close> are those of \<open>s\<close> followed by those of \<open>s'\<close>, and
  a selector without white space is one pattern, commas included. In both, an account
  name is taken when some pattern matches it, each pattern tried on its own.
\<close>

theorem selector_split:
  "(\<forall>p \<in> set (cmd_selectorPatterns s). p \<noteq> [] \<and> CHR '','' \<notin> set p)
   \<and> cmd_selectorPatterns (s @ '','' @ s') = cmd_selectorPatterns s @ cmd_selectorPatterns s'
   \<and> (CHR '','' \<notin> set s \<longrightarrow>
        cmd_selectorPatterns s = (if TrimSpace s = [] then [] else [TrimSpace s]))
   \<and> (\<forall>p \<in> set (Fields s). p \<noteq> [] \<and> CHR '' '' \<notin> set p)
   \<and> (w \<in> set unicode_spaces \<longrightarrow> Fields (s @ w @ s') = Fields s @ Fields s')
   \<and> ((\<forall>t \<in> set (suffixes s). space_width unicode_spaces t = 0) \<longrightarrow>
        Fields s = (if s = [] then [] else [s]))
   \<and> (snd (cmd_match_patterns v M ps n) \<longleftrightarrow> (\<exists>p \<in> set ps. M p n = Inr True))
   \<and> (snd (saws_match_patterns M ps n) \<longleftrightarrow> (\<exists>p \<in> set ps. M p n = Inr True))"
proof -
  have 1: "\<forall>p \<in> set (cmd_selectorPatterns s). p \<noteq> [] \<and> CHR '','' \<notin> set p"
    using cmd_selectorPatterns_clean by blast
  have 2: "\<forall>p \<in> set (Fields s). p \<noteq> [] \<and> CHR '' '' \<notin> set p"
    using Fields_no_space by blast
  have 3: "w \<in> set unicode_spaces \<longrightarrow> Fields (s @ w @ s') = Fields s @ Fields s'"
    using Fields_split by blast
  have 4: "(\<forall>t \<in> set (suffixes s). space_width unicode_spaces t = 0) \<longrightarrow>
             Fields s = (if s = [] then [] else [s])"
    using Fields_unbroken by blast
  have 5: "CHR '','' \<notin> set s \<longrightarrow>
             cmd_selectorPatterns s = (if TrimSpace s = [] then [] else [TrimSpace s])"
    using cmd_selectorPatterns_no_comma by blast
  show ?thesis
    by (intro conjI 1 2 3 4 5 cmd_selectorPatterns_comma cmd_match_patterns_found
          saws_match_patterns_found)
qed

lemma TrimSpace_selectors:
  "TrimSpace ''x y'' = ''x y''" "TrimSpace ''x'' = ''x''" "TrimSpace ''y'' = ''y''"
  "TrimSpace ''a'' = ''a''" "TrimSpace ''b'' = ''b''" "TrimSpace '' , '' = '',''"
  by (simp_all add: TrimSpace_def TrimLeftSpace_def TrimRightSpace_def space_width_def
        unicode_spaces_def)

theorem selector_split_witness:
  "cmd_selectorPatterns ''x y'' = [''x y'']
   \<and> cmd_selectorPatterns (''x'' @ '','' @ ''y'') = [''x'', ''y'']
   \<and> Fields ''x,y'' = [''x,y'']
   \<and> Fields (''x'' @ '' '' @ ''y'') = [''x'', ''y'']"
proof -
  note xy = selector_split [of "''x y''" "''y''" "'' ''" False star_Match "[]" "[]"]
  note x = selector_split [of "''x''" "''y''" "'' ''" False star_Match "[]" "[]"]
  note y = selector_split [of "''y''" "''y''" "'' ''" False star_Match "[]" "[]"]
  note xcy = selector_split [of "''x,y''" "''y''" "'' ''" False star_Match "[]" "[]"]
  have nc: "CHR '','' \<notin> set ''x y''" "CHR '','' \<notin> set ''x''" "CHR '','' \<notin> set ''y''"
    by simp_all
  from xy [THEN conjunct2, THEN conjunct2, THEN conjunct1] nc(1)
  have 1: "cmd_selectorPatterns ''x y'' = [''x y'']"
    by (simp add: TrimSpace_selectors)
  from x [THEN conjunct2, THEN conjunct2, THEN conjunct1] nc(2)
  have 2: "cmd_selectorPatterns ''x'' = [''x'']"
    by (simp add: TrimSpace_selectors)
  from y [THEN conjunct2, THEN conjunct2, THEN conjunct1] nc(3)
  have 3: "cmd_selectorPatterns ''y'' = [''y'']"
    by (simp add: TrimSpace_selectors)
  from x [THEN conjunct2, THEN conjunct1] 2 3
  have 4: "cmd_selectorPatterns (''x'' @ '','' @ ''y'') = [''x'', ''y'']"
    by simp
  have ns: "\<forall>t \<in> set (suffixes ''x,y''). space_width unicode_spaces t = 0"
    "\<forall>t \<in> set (suffixes ''x''). space_width unicode_spaces t = 0"
    "\<forall>t \<in> set (suffixes ''y''). space_width unicode_spaces t = 0"
    by (simp_all add: space_width_def unicode_spaces_def)
  note unbroken = conjunct2 [THEN conjunct2, THEN conjunct2, THEN conjunct2, THEN conjunct2,
                    THEN conjunct1]
  from xcy [THEN unbroken] ns(1) have 5: "Fields ''x,y'' = [''x,y'']" by simp
  from x [THEN unbroken] ns(2) have 6: "Fields ''x'' = [''x'']" by simp
  from y [THEN unbroken] ns(3) have 7: "Fields ''y'' = [''y'']" by simp
  have sp: "'' '' \<in> set unicode_spaces" by (simp add: unicode_spaces_def)
  from x [THEN conjunct2, THEN conjunct2, THEN conjunct2, THEN conjunct2, THEN conjunct1] sp
  have "Fields (''x'' @ '' '' @ ''y'') = Fields ''x'' @ Fields ''y''" by (rule mp)
  with 6 7 have 8: "Fields (''x'' @ '' '' @ ''y'') = [''x'', ''y'']"
    by simp
  from 1 4 5 8 show ?thesis by (intro conjI)
qed

section \<open>The accounts of the selector\<close>

lemma cmd_targetAccountNames_selected:
  "snd (cmd_targetAccountNames v M cfg False s) =
     (if sorted_list_of_set {n \<in> fst ` set (Accounts cfg).
            \<exists>p \<in> set (cmd_selectorPatterns s). M p n = Inr True} = []
      then Inl 1
      else Inr (sorted_list_of_set {n \<in> fst ` set (Accounts cfg).
                  \<exists>p \<in> set (cmd_selectorPatterns s). M p n = Inr True}))"
proof -
  let ?ps = "cmd_selectorPatterns s"
  let ?S = "{n \<in> fst ` set (Accounts cfg). \<exists>p \<in> set ?ps. M p n = Inr True}"
  let ?all = "sort_Strings (map_keys (Accounts cfg))"
  show ?thesis
  proof (cases "?ps = []")
    case True
    then have "?S = {}" by simp
    with True show ?thesis
      by (simp add: cmd_targetAccountNames_def Let_def)
  next
    case False
    obtain evs m where ma: "cmd_match_accounts v M ?ps ?all [] = (evs, m)"
      by (cases "cmd_match_accounts v M ?ps ?all []")
    have "set m = ?S"
      using cmd_match_accounts_set [of v M ?ps ?all "[]"] ma
      by (simp add: sort_Strings_props map_keys_props)
    moreover have "distinct m"
      using cmd_match_accounts_distinct [of "[]" v M ?ps ?all] ma by simp
    ultimately have "sort_Strings m = sorted_list_of_set ?S"
      by (intro sorted_distinct_is_chosen) (simp_all add: sort_Strings_props)
    with False ma show ?thesis
      by (simp add: cmd_targetAccountNames_def Let_def)
  qed
qed

lemma saws_targetAccountNames_selected:
  "snd (saws_targetAccountNames M accounts False s) =
     (if sorted_list_of_set {n \<in> fst ` set accounts.
            \<exists>p \<in> set (Fields s). M p n = Inr True} = []
      then Inl 1
      else Inr (sorted_list_of_set {n \<in> fst ` set accounts.
                  \<exists>p \<in> set (Fields s). M p n = Inr True}))"
proof -
  let ?S = "{n \<in> fst ` set accounts. \<exists>p \<in> set (Fields s). M p n = Inr True}"
  let ?all = "sort_Strings (map_keys accounts)"
  obtain evs t m where ma: "saws_match_accounts M (Fields s) ?all ([], []) = (evs, t, m)"
    by (cases "saws_match_accounts M (Fields s) ?all ([], [])") auto
  have "set t = ?S \<and> distinct t"
    using saws_match_accounts_inv [of "[]" "[]" M "Fields s" ?all] ma
    by (simp add: sort_Strings_props map_keys_props)
  then have "sort_Strings t = sorted_list_of_set ?S"
    by (intro sorted_distinct_is_chosen) (simp_all add: sort_Strings_props)
  with ma show ?thesis
    by (simp add: saws_targetAccountNames_def Let_def)
qed

lemma sorted_list_of_set_chosen:
  "finite S \<Longrightarrow> sorted_list_of_set S = A \<Longrightarrow> sorted A \<and> distinct A \<and> set A = S"
  by auto

text \<open>
  C6. In both programs the accounts chosen by a selector depend on the set of its
  patterns alone: two selectors with the same patterns, in any order and with any
  repetition, give the same result. A list of names that is returned is sorted, holds
  no name twice, and holds exactly the names of the registry that some pattern matches.
\<close>

theorem selector_resolution:
  "(set (cmd_selectorPatterns s) = set (cmd_selectorPatterns s') \<longrightarrow>
      snd (cmd_targetAccountNames v M cfg False s) = snd (cmd_targetAccountNames v M cfg False s'))
   \<and> (set (Fields s) = set (Fields s') \<longrightarrow>
        snd (saws_targetAccountNames M (Accounts cfg) False s)
          = snd (saws_targetAccountNames M (Accounts cfg) False s'))
   \<and> (snd (cmd_targetAccountNames v M cfg False s) = Inr A \<longrightarrow>
        sorted A \<and> distinct A
        \<and> set A = {n \<in> fst ` set (Accounts cfg).
                     \<exists>p \<in> set (cmd_selectorPatterns s). M p n = Inr True})
   \<and> (snd (saws_targetAccountNames M (Accounts cfg) False s) = Inr A \<longrightarrow>
        sorted A \<and> distinct A
        \<and> set A = {n \<in> fst ` set (Accounts cfg). \<exists>p \<in> set (Fields s). M p n = Inr True})"
proof -
  let ?C = "\<lambda>ps. {n \<in> fst ` set (Accounts cfg). \<exists>p \<in> set ps. M p n = Inr True}"
  have fin: "finite (?C ps)" for ps by simp
  have 1: "set (cmd_selectorPatterns s) = set (cmd_selectorPatterns s') \<longrightarrow>
      snd (cmd_targetAccountNames v M cfg False s) = snd (cmd_targetAccountNames v M cfg False s')"
    by (simp add: cmd_targetAccountNames_selected)
  have 2: "set (Fields s) = set (Fields s') \<longrightarrow>
        snd (saws_targetAccountNames M (Accounts cfg) False s)
          = snd (saws_targetAccountNames M (Accounts cfg) False s')"
    by (simp add: saws_targetAccountNames_selected)
  have 3: "snd (cmd_targetAccountNames v M cfg False s) = Inr A \<longrightarrow>
        sorted A \<and> distinct A \<and> set A = ?C (cmd_selectorPatterns s)"
  proof
    assume "snd (cmd_targetAccountNames v M cfg False s) = Inr A"
    then have "sorted_list_of_set (?C (cmd_selectorPatterns s)) = A"
      by (simp add: cmd_targetAccountNames_selected split: if_splits)
    with fin show "sorted A \<and> distinct A \<and> set A = ?C (cmd_selectorPatterns s)"
      by (rule sorted_list_of_set_chosen)
  qed
  have 4: "snd (saws_targetAccountNames M (Accounts cfg) False s) = Inr A \<longrightarrow>
        sorted A \<and> distinct A \<and> set A = ?C (Fields s)"
  proof
    assume "snd (saws_targetAccountNames M (Accounts cfg) False s) = Inr A"
    then have "sorted_list_of_set (?C (Fields s)) = A"
      by (simp add: saws_targetAccountNames_selected split: if_splits)
    with fin show "sorted A \<and> distinct A \<and> set A = ?C (Fields s)"
      by (rule sorted_list_of_set_chosen)
  qed
  from 1 2 3 4 show ?thesis by blast
qed

lemma sorted_names: "sort_Strings [''a'', ''b''] = [''a'', ''b'']"
  "sort_Strings [''b'', ''a''] = [''a'', ''b'']"
  by (simp_all add: sort_Strings_def less_eq_char_def less_char_def)

lemma config0_names: "sort_Strings (map_keys (Accounts config0)) = [''a'', ''b'']"
  by (simp add: config0_def map_keys_def sorted_names)

lemma selectors_ab:
  "cmd_selectorPatterns ''a,b'' = [''a'', ''b'']" "cmd_selectorPatterns ''b,a'' = [''b'', ''a'']"
  "Fields ''a b'' = [''a'', ''b'']" "Fields ''b a'' = [''b'', ''a'']"
  by (simp_all add: cmd_selectorPatterns_def Fields_def TrimSpace_selectors space_width_def
        unicode_spaces_def)

lemma star_Match_ab:
  "star_Match ''a'' ''a'' = Inr True" "star_Match ''b'' ''b'' = Inr True"
  "star_Match ''a'' ''b'' = Inr False" "star_Match ''b'' ''a'' = Inr False"
  by (simp_all add: star_Match_def)

lemma chosen_ab:
  "snd (cmd_targetAccountNames False star_Match config0 False ''a,b'') = Inr [''a'', ''b'']"
  "snd (saws_targetAccountNames star_Match (Accounts config0) False ''a b'') = Inr [''a'', ''b'']"
  by (simp_all add: cmd_targetAccountNames_def saws_targetAccountNames_def config0_names
        selectors_ab star_Match_ab sorted_names LogVerbosef_def Let_def)

theorem selector_resolution_witness:
  "snd (cmd_targetAccountNames False star_Match config0 False ''b,a'') = Inr [''a'', ''b'']
   \<and> snd (saws_targetAccountNames star_Match (Accounts config0) False ''b a'') = Inr [''a'', ''b'']
   \<and> sorted [''a'', ''b''] \<and> distinct [''a'', ''b'']"
proof -
  note inst = selector_resolution [of "''b,a''" "''a,b''" False star_Match config0
                "[''a'', ''b'']"]
  have "set (cmd_selectorPatterns ''b,a'') = set (cmd_selectorPatterns ''a,b'')"
    by (simp add: selectors_ab insert_commute)
  with inst have "snd (cmd_targetAccountNames False star_Match config0 False ''b,a'')
                    = snd (cmd_targetAccountNames False star_Match config0 False ''a,b'')"
    by blast
  then have 1: "snd (cmd_targetAccountNames False star_Match config0 False ''b,a'')
                  = Inr [''a'', ''b'']"
    by (simp only: chosen_ab)
  then have 3: "sorted [''a'', ''b''] \<and> distinct [''a'', ''b'']"
    using inst by blast
  note inst' = selector_resolution [of "''b a''" "''a b''" False star_Match config0
                 "[''a'', ''b'']"]
  have "set (Fields ''b a'') = set (Fields ''a b'')"
    by (simp add: selectors_ab insert_commute)
  with inst' have "snd (saws_targetAccountNames star_Match (Accounts config0) False ''b a'')
                     = snd (saws_targetAccountNames star_Match (Accounts config0) False ''a b'')"
    by blast
  then have 2: "snd (saws_targetAccountNames star_Match (Accounts config0) False ''b a'')
                  = Inr [''a'', ''b'']"
    by (simp only: chosen_ab)
  from 1 2 3 show ?thesis by blast
qed

section \<open>Spawning and joining\<close>





lemma run_units_length:
  "length (cmd_run_units w v cfg br role cmd units) = length units"
  "length (saws_run_units w accounts br role cmd units) = length units"
  by (simp_all add: cmd_run_units_def saws_run_units_def)

text \<open>The \<open>i\<close>-th worker is given its own unit and meets the outside at its own index.\<close>

lemma cmd_run_units_nth:
  "i < length units \<Longrightarrow>
     cmd_run_units w v cfg br role cmd units ! i =
       (units ! i,
        ProcessAccountRegion v (sts_at w i) (run_at w i) (Environ w) (Getpid w) br cfg
          (fst (units ! i)) role cmd (snd (units ! i)))"
  by (simp add: cmd_run_units_def nth_enumerate_eq split_def)

lemma saws_run_units_nth:
  "i < length units \<Longrightarrow>
     saws_run_units w accounts br role cmd units ! i =
       (units ! i,
        processAccountRegion (sts_at w i) (run_at w i) (Environ w) (Getpid w) br accounts
          (fst (units ! i)) role cmd (snd (units ! i)))"
  by (simp add: saws_run_units_def nth_enumerate_eq split_def)


section \<open>Account resolution: what is returned\<close>

lemma targetAccountNames_exit_1:
  "cmd_targetAccountNames v M cfg a s = (e, Inl c) \<Longrightarrow> c = 1"
  "saws_targetAccountNames M accounts a s = (e', Inl c') \<Longrightarrow> c' = 1"
  by (auto simp: cmd_targetAccountNames_def saws_targetAccountNames_def Let_def
        split: if_splits prod.splits)



section \<open>How \<open>main\<close> ends\<close>

lemma ended_early [simp]:
  "workers (os_Exit c evs) = []" "exit_code (os_Exit c evs) = c"
  "workers (usage evs) = []" "exit_code (usage evs) = 1"
  "workers (log_Fatalf evs msg) = []" "exit_code (log_Fatalf evs msg) = 1"
  "workers (interactive_flow w evs) = []"
  by (simp_all add: os_Exit_def usage_def log_Fatalf_def interactive_flow_def split: option.splits)

lemma cmd_commandMode_ends:
  "(workers (cmd_commandMode w f cfg evs) = [] \<and> exit_code (cmd_commandMode w f cfg evs) = 1)
   \<or> (\<exists>e1 R e2 A br.
         cmd_targetRegions (flag_v f) (flag_regions f) (ambient_config w) = (e1, Inr R)
         \<and> cmd_targetAccountNames (flag_v f) (filepath_Match w) cfg (flag_a f) (flag_s f)
             = (e2, Inr A)
         \<and> base_config w = Inr br
         \<and> workers (cmd_commandMode w f cfg evs)
             = cmd_run_units w (flag_v f) cfg br (flag_r f) (flag_c f) (spawn_units A R)
         \<and> exit_code (cmd_commandMode w f cfg evs)
             = fst (cmd_finalVerdict (flag_v f)
                      (successfulExecutions (workers (cmd_commandMode w f cfg evs)))
                      (int (length A) * int (length R)) (totalDuration w)))"
proof (cases "flag_r f = [] \<or> (flag_a f \<and> flag_s f \<noteq> []) \<or> (\<not> flag_a f \<and> flag_s f = [])
                \<or> \<not> LookPath_aws w")
  case True
  then show ?thesis by (auto simp: cmd_commandMode_def)
next
  case checks: False
  obtain e1 r1 where R: "cmd_targetRegions (flag_v f) (flag_regions f) (ambient_config w) = (e1, r1)"
    by (cases "cmd_targetRegions (flag_v f) (flag_regions f) (ambient_config w)")
  obtain e2 r2 where A: "cmd_targetAccountNames (flag_v f) (filepath_Match w) cfg (flag_a f)
                           (flag_s f) = (e2, r2)"
    by (cases "cmd_targetAccountNames (flag_v f) (filepath_Match w) cfg (flag_a f) (flag_s f)")
  show ?thesis
  proof (cases r1)
    case (Inl c)
    with R have "c = 1" using targetRegions_exit_1(1) by blast
    with checks R Inl show ?thesis by (simp add: cmd_commandMode_def)
  next
    case regions: (Inr Rs)
    show ?thesis
    proof (cases r2)
      case (Inl c)
      with A have "c = 1" using targetAccountNames_exit_1(1) by blast
      with checks R A regions Inl show ?thesis by (simp add: cmd_commandMode_def)
    next
      case accounts: (Inr As)
      show ?thesis
      proof (cases "base_config w")
        case (Inl e)
        with checks R A regions accounts show ?thesis by (simp add: cmd_commandMode_def)
      next
        case (Inr br)
        with checks R A regions accounts show ?thesis
          by (simp add: cmd_commandMode_def Let_def split_def)
      qed
    qed
  qed
qed

lemma saws_commandMode_ends:
  "(workers (saws_commandMode w f accounts evs) = []
      \<and> exit_code (saws_commandMode w f accounts evs) = 1)
   \<or> (\<exists>e1 R e2 A br.
         saws_targetRegions (flag_regions f) (ambient_config w) = (e1, Inr R)
         \<and> saws_targetAccountNames (filepath_Match w) accounts (flag_a f) (flag_s f) = (e2, Inr A)
         \<and> base_config w = Inr br
         \<and> workers (saws_commandMode w f accounts evs)
             = saws_run_units w accounts br (flag_r f) (flag_c f) (spawn_units A R)
         \<and> exit_code (saws_commandMode w f accounts evs)
             = fst (saws_finalVerdict
                      (successfulExecutions (workers (saws_commandMode w f accounts evs)))
                      (int (length A) * int (length R))))"
proof (cases "flag_r f = [] \<or> flag_c f = [] \<or> (flag_a f \<and> flag_s f \<noteq> [])
                \<or> (\<not> flag_a f \<and> flag_s f = []) \<or> \<not> LookPath_aws w")
  case True
  then show ?thesis by (auto simp: saws_commandMode_def)
next
  case checks: False
  obtain e1 r1 where R: "saws_targetRegions (flag_regions f) (ambient_config w) = (e1, r1)"
    by (cases "saws_targetRegions (flag_regions f) (ambient_config w)")
  obtain e2 r2 where A: "saws_targetAccountNames (filepath_Match w) accounts (flag_a f)
                           (flag_s f) = (e2, r2)"
    by (cases "saws_targetAccountNames (filepath_Match w) accounts (flag_a f) (flag_s f)")
  show ?thesis
  proof (cases r1)
    case (Inl c)
    with R have "c = 1" using targetRegions_exit_1(2) by blast
    with checks R Inl show ?thesis by (simp add: saws_commandMode_def)
  next
    case regions: (Inr Rs)
    show ?thesis
    proof (cases r2)
      case (Inl c)
      with A have "c = 1" using targetAccountNames_exit_1(2) by blast
      with checks R A regions Inl show ?thesis by (simp add: saws_commandMode_def)
    next
      case accounts: (Inr As)
      show ?thesis
      proof (cases "base_config w")
        case (Inl e)
        with checks R A regions accounts show ?thesis by (simp add: saws_commandMode_def)
      next
        case (Inr br)
        with checks R A regions accounts show ?thesis
          by (simp add: saws_commandMode_def Let_def split_def)
      qed
    qed
  qed
qed

lemma interactive_flow_code:
  "exit_code (interactive_flow w evs) = 0 \<or> exit_code (interactive_flow w evs) = 1"
  by (simp add: interactive_flow_def split: option.splits)

lemma cmd_main_ends:
  "(workers (cmd_main w f) = []
      \<and> (exit_code (cmd_main w f) = 1
          \<or> exit_code (cmd_main w f) = 0 \<and> flag_c f = []))
   \<or> (\<exists>p evs cfg. config_path w = Inr p \<and> LoadConfig (flag_v f) w p = (evs, Inr cfg)
         \<and> flag_c f \<noteq> [] \<and> cmd_main w f = cmd_commandMode w f cfg evs)"
proof (cases "config_path w")
  case (Inl e)
  then show ?thesis by (simp add: cmd_main_def)
next
  case path: (Inr p)
  obtain evs r where L: "LoadConfig (flag_v f) w p = (evs, r)"
    by (cases "LoadConfig (flag_v f) w p")
  show ?thesis
  proof (cases r)
    case (Inl e)
    with path L show ?thesis by (simp add: cmd_main_def)
  next
    case cfg: (Inr cfg)
    show ?thesis
    proof (cases "flag_h f")
      case True
      with path L cfg show ?thesis by (simp add: cmd_main_def)
    next
      case False
      with path L cfg interactive_flow_code [of w evs] show ?thesis
        by (auto simp: cmd_main_def Let_def)
    qed
  qed
qed

lemma saws_main_ends:
  "(workers (saws_main w f) = []
      \<and> (exit_code (saws_main w f) = 1 \<or> exit_code (saws_main w f) = 0 \<and> flag_e f))
   \<or> (\<exists>p evs cfg. config_path w = Inr p \<and> loadConfig w p = (evs, Inr cfg)
         \<and> \<not> flag_e f \<and> saws_main w f = saws_commandMode w f (Accounts cfg) evs)"
proof (cases "config_path w")
  case (Inl e)
  then show ?thesis by (simp add: saws_main_def)
next
  case path: (Inr p)
  obtain evs r where L: "loadConfig w p = (evs, r)"
    by (cases "loadConfig w p")
  show ?thesis
  proof (cases r)
    case (Inl e)
    with path L show ?thesis by (simp add: saws_main_def)
  next
    case cfg: (Inr cfg)
    with path L show ?thesis
      by (auto simp: saws_main_def Let_def split: option.splits)
  qed
qed

lemma cmd_commandMode_no_patterns:
  assumes "flag_s f \<noteq> []" and "cmd_selectorPatterns (flag_s f) = []"
  shows "workers (cmd_commandMode w f cfg evs) = []
           \<and> exit_code (cmd_commandMode w f cfg evs) = 1"
proof (cases "flag_a f")
  case True
  with assms(1) show ?thesis by (simp add: cmd_commandMode_def)
next
  case False
  with assms(2)
  have "snd (cmd_targetAccountNames (flag_v f) (filepath_Match w) cfg (flag_a f) (flag_s f))
          = Inl 1"
    by (simp add: cmd_targetAccountNames_def Let_def)
  with cmd_commandMode_ends [of w f cfg evs] show ?thesis by auto
qed

lemma saws_commandMode_no_patterns:
  assumes "flag_s f \<noteq> []" and "Fields (flag_s f) = []"
  shows "workers (saws_commandMode w f accounts evs) = []
           \<and> exit_code (saws_commandMode w f accounts evs) = 1"
proof (cases "flag_a f")
  case True
  with assms(1) show ?thesis by (simp add: saws_commandMode_def)
next
  case False
  with assms
  have "snd (saws_targetAccountNames (filepath_Match w) accounts (flag_a f) (flag_s f)) = Inl 1"
    by (simp add: saws_targetAccountNames_selected)
  with saws_commandMode_ends [of w f accounts evs] show ?thesis by auto
qed

section \<open>A selector without patterns\<close>

text \<open>
  C10. In command mode a selector that is not empty and gives no pattern ends the run
  with status 1 before any worker is started, so no role is assumed and no subprocess is
  run. For \<open>cmd/saws\<close> command mode is a non-empty \<open>-c\<close> and the patterns are the trimmed
  non-empty pieces between commas; for \<open>saws.go\<close> command mode is the absence of \<open>-e\<close>
  and the patterns are the fields between white space (there a comma is a byte of a
  pattern like any other).
\<close>

theorem selector_without_patterns:
  "(flag_c f \<noteq> [] \<and> flag_s f \<noteq> [] \<and> cmd_selectorPatterns (flag_s f) = [] \<longrightarrow>
      exit_code (cmd_main w f) = 1 \<and> workers (cmd_main w f) = [])
   \<and> (\<not> flag_e f \<and> flag_s f \<noteq> [] \<and> Fields (flag_s f) = [] \<longrightarrow>
        exit_code (saws_main w f) = 1 \<and> workers (saws_main w f) = [])"
proof (intro conjI impI)
  assume h: "flag_c f \<noteq> [] \<and> flag_s f \<noteq> [] \<and> cmd_selectorPatterns (flag_s f) = []"
  then have "\<And>cfg evs. workers (cmd_commandMode w f cfg evs) = []
                 \<and> exit_code (cmd_commandMode w f cfg evs) = 1"
    using cmd_commandMode_no_patterns by blast
  with h cmd_main_ends [of w f]
  show "exit_code (cmd_main w f) = 1" and "workers (cmd_main w f) = []"
    by auto
next
  assume h: "\<not> flag_e f \<and> flag_s f \<noteq> [] \<and> Fields (flag_s f) = []"
  then have "\<And>acc evs. workers (saws_commandMode w f acc evs) = []
                 \<and> exit_code (saws_commandMode w f acc evs) = 1"
    using saws_commandMode_no_patterns by blast
  with h saws_main_ends [of w f]
  show "exit_code (saws_main w f) = 1" and "workers (saws_main w f) = []"
    by auto
qed

lemma no_patterns:
  "cmd_selectorPatterns '' , '' = []" "Fields ''   '' = []"
  by (simp_all add: cmd_selectorPatterns_def Fields_def TrimSpace_regions space_width_def
        unicode_spaces_def)

theorem selector_without_patterns_witness:
  "exit_code (cmd_main world0 (flags0\<lparr>flag_s := '' , ''\<rparr>)) = 1
   \<and> workers (cmd_main world0 (flags0\<lparr>flag_s := '' , ''\<rparr>)) = []
   \<and> exit_code (saws_main world0 (flags0\<lparr>flag_s := ''   ''\<rparr>)) = 1
   \<and> workers (saws_main world0 (flags0\<lparr>flag_s := ''   ''\<rparr>)) = []"
proof -
  have c: "flag_c (flags0\<lparr>flag_s := '' , ''\<rparr>) \<noteq> [] \<and> flag_s (flags0\<lparr>flag_s := '' , ''\<rparr>) \<noteq> []
             \<and> cmd_selectorPatterns (flag_s (flags0\<lparr>flag_s := '' , ''\<rparr>)) = []"
    by (simp add: flags0_def no_patterns)
  have s: "\<not> flag_e (flags0\<lparr>flag_s := ''   ''\<rparr>) \<and> flag_s (flags0\<lparr>flag_s := ''   ''\<rparr>) \<noteq> []
             \<and> Fields (flag_s (flags0\<lparr>flag_s := ''   ''\<rparr>)) = []"
    by (simp add: flags0_def no_patterns)
  from c selector_without_patterns [of "flags0\<lparr>flag_s := '' , ''\<rparr>" world0]
  have 1: "exit_code (cmd_main world0 (flags0\<lparr>flag_s := '' , ''\<rparr>)) = 1
             \<and> workers (cmd_main world0 (flags0\<lparr>flag_s := '' , ''\<rparr>)) = []"
    by blast
  from s selector_without_patterns [of "flags0\<lparr>flag_s := ''   ''\<rparr>" world0]
  have 2: "exit_code (saws_main world0 (flags0\<lparr>flag_s := ''   ''\<rparr>)) = 1
             \<and> workers (saws_main world0 (flags0\<lparr>flag_s := ''   ''\<rparr>)) = []"
    by blast
  from 1 2 show ?thesis by blast
qed

section \<open>One worker for each account and region\<close>











end
